theory Spec2Isabelle
  imports Main
begin

section \<open>Python values, objects and the store of specification objects\<close>

text \<open>
  The three adapter modules (\<^verbatim>\<open>httprouter/starlette.py\<close>, \<^verbatim>\<open>httprouter/litestar.py\<close>,
  \<^verbatim>\<open>httprouter/fastapi.py\<close>) share one decorator and discovery layer, repeated verbatim in
  each file, and differ in their specification dataclasses and in \<^verbatim>\<open>mount_router\<close>.

  Specification objects are mutable dataclass instances that are reached through
  attributes, so they live in a store and are named by references. Values that the
  modules hand on to the host framework as they are (middleware entries, response specs)
  are values of the type \<open>pyval\<close>; the values of keyword options that reach the host
  through \<^verbatim>\<open>dataclasses.asdict\<close> are values of the type \<open>optval\<close>. The lists and
  dictionaries held in the fields of a specification are values too: no module updates
  one in place (\<^verbatim>\<open>merge\<close>, \<^verbatim>\<open>concat\<close> and \<^verbatim>\<open>concat_unique\<close> return one of their arguments
  or build a new collection).

  Names follow the source. A leading underscore is dropped (\<^verbatim>\<open>_get_path\<close> is
  \<open>get_path\<close>); where the modules define different things under one name, the name says
  the module (\<open>st_\<close>, \<open>ls_\<close>, \<open>fa_\<close>, or the name of the module in full); \<^verbatim>\<open>concat\<close> of
  \<^verbatim>\<open>starlette.py\<close> is \<open>concat_seq\<close>.

  What the host framework does with a registration is not part of the modules: a host
  application is the list of the registrations it has received, each with the keyword
  arguments of the call.
\<close>

type_synonym ref = nat

datatype pyval =
    PyNone
  | PyBool bool
  | PyInt int
  | PyStr string
  | PyList "pyval list"
  | PyOpaque nat

text \<open>
  The value of a keyword option that passes through \<^verbatim>\<open>dataclasses.asdict\<close>: a dataclass
  instance (its fields by name), a list or tuple, a dictionary, or any other value.
  \<^verbatim>\<open>asdict\<close> turns a dataclass instance into the dictionary of its fields, at any depth
  inside lists and dictionaries, and copies any other value as it is.
\<close>

datatype optval =
    Plain pyval
  | Instance "(string \<times> optval) list"
  | Sequence "optval list"
  | Dictionary "(optval \<times> optval) list"

primrec asdict_inner :: "optval \<Rightarrow> optval" where
  "asdict_inner (Plain v) = Plain v"
| "asdict_inner (Instance fields) =
     Dictionary (map (\<lambda>(name, v). (Plain (PyStr name), v)) (map (map_prod id asdict_inner) fields))"
| "asdict_inner (Sequence xs) = Sequence (map asdict_inner xs)"
| "asdict_inner (Dictionary kvs) = Dictionary (map (map_prod asdict_inner asdict_inner) kvs)"

text \<open>The options of a specification that the record does not name, through \<^verbatim>\<open>asdict\<close>.\<close>

definition asdict_options :: "(string \<times> optval) list \<Rightarrow> (string \<times> optval) list" where
  "asdict_options options = map (\<lambda>(name, v). (name, asdict_inner v)) options"

text \<open>
  Exceptions: the \<^verbatim>\<open>TypeError\<close> of the modules and of the interpreter, and the exceptions
  that code outside the modules (a lifespan hook, the host while it serves) raises.
\<close>

datatype error = TypeError string | Exception nat

text \<open>
  A Python object as the modules see it: its identity, what it does when it is called,
  and the three attributes that the decorators attach. \<open>None\<close> is an absent attribute
  (\<^verbatim>\<open>hasattr\<close> is false), \<open>Some r\<close> an attribute bound to the specification object \<open>r\<close>.
  \<^verbatim>\<open>__router_lifespan__\<close> is bound to \<^verbatim>\<open>None\<close> by its setter, so only its presence counts.
\<close>

record 'b pyobject =
  ident :: nat
  call :: 'b
  route_spec_attr :: "ref option"
  ws_route_spec_attr :: "ref option"
  router_lifespan_attr :: bool

text \<open>
  A router instance: the attribute \<^verbatim>\<open>__router_spec__\<close> it inherits from its class, and the
  \<open>(name, value)\<close> pairs that \<^verbatim>\<open>inspect.getmembers\<close> returns for it.
\<close>

record 'b router =
  router_spec_attr :: "ref option"
  getmembers :: "(string \<times> 'b pyobject) list"

record WEBSOCKET =
  ws_path :: string
  ws_name :: "string option"

text \<open>
  The store: one heap per dataclass (\<^verbatim>\<open>RouterSpec\<close>, \<^verbatim>\<open>ROUTE\<close>, \<^verbatim>\<open>WEBSOCKET\<close>) and the next
  unused reference. The types of \<^verbatim>\<open>RouterSpec\<close> and \<^verbatim>\<open>ROUTE\<close> are those of the module.
\<close>

record ('rs, 'r) store =
  router_specs :: "ref \<Rightarrow> 'rs"
  route_specs :: "ref \<Rightarrow> 'r"
  ws_specs :: "ref \<Rightarrow> WEBSOCKET"
  next_ref :: ref

text \<open>Creating an object (a constructor call) takes the next unused reference.\<close>

definition new_router_spec :: "'rs \<Rightarrow> ('rs, 'r) store \<Rightarrow> ref \<times> ('rs, 'r) store" where
  "new_router_spec v s =
     (next_ref s, s\<lparr>router_specs := (router_specs s)(next_ref s := v), next_ref := Suc (next_ref s)\<rparr>)"

definition new_route :: "'r \<Rightarrow> ('rs, 'r) store \<Rightarrow> ref \<times> ('rs, 'r) store" where
  "new_route v s =
     (next_ref s, s\<lparr>route_specs := (route_specs s)(next_ref s := v), next_ref := Suc (next_ref s)\<rparr>)"

definition new_websocket :: "WEBSOCKET \<Rightarrow> ('rs, 'r) store \<Rightarrow> ref \<times> ('rs, 'r) store" where
  "new_websocket v s =
     (next_ref s, s\<lparr>ws_specs := (ws_specs s)(next_ref s := v), next_ref := Suc (next_ref s)\<rparr>)"

text \<open>
  \<^verbatim>\<open>dataclasses.replace(obj)\<close> with no changes builds a new object of the same class from
  the current field values of \<open>obj\<close>: a shallow copy at a new reference.
\<close>

definition replace_router_spec :: "ref \<Rightarrow> ('rs, 'r) store \<Rightarrow> ref \<times> ('rs, 'r) store" where
  "replace_router_spec r s = new_router_spec (router_specs s r) s"

definition replace_route :: "ref \<Rightarrow> ('rs, 'r) store \<Rightarrow> ref \<times> ('rs, 'r) store" where
  "replace_route r s = new_route (route_specs s r) s"

definition replace_websocket :: "ref \<Rightarrow> ('rs, 'r) store \<Rightarrow> ref \<times> ('rs, 'r) store" where
  "replace_websocket r s = new_websocket (ws_specs s r) s"

text \<open>An attribute assignment \<^verbatim>\<open>obj.field = v\<close> on the object at a reference.\<close>

definition assign_router_spec :: "ref \<Rightarrow> ('rs \<Rightarrow> 'rs) \<Rightarrow> ('rs, 'r) store \<Rightarrow> ('rs, 'r) store" where
  "assign_router_spec r f s = s\<lparr>router_specs := (router_specs s)(r := f (router_specs s r))\<rparr>"

definition assign_route :: "ref \<Rightarrow> ('r \<Rightarrow> 'r) \<Rightarrow> ('rs, 'r) store \<Rightarrow> ('rs, 'r) store" where
  "assign_route r f s = s\<lparr>route_specs := (route_specs s)(r := f (route_specs s r))\<rparr>"

definition assign_websocket :: "ref \<Rightarrow> (WEBSOCKET \<Rightarrow> WEBSOCKET) \<Rightarrow> ('rs, 'r) store \<Rightarrow> ('rs, 'r) store" where
  "assign_websocket r f s = s\<lparr>ws_specs := (ws_specs s)(r := f (ws_specs s r))\<rparr>"

text \<open>\<^verbatim>\<open>str.lstrip(chars)\<close> and \<^verbatim>\<open>str.rstrip(chars)\<close>.\<close>

definition lstrip :: "string \<Rightarrow> string \<Rightarrow> string" where
  "lstrip chars s = dropWhile (\<lambda>c. c \<in> set chars) s"

definition rstrip :: "string \<Rightarrow> string \<Rightarrow> string" where
  "rstrip chars s = rev (dropWhile (\<lambda>c. c \<in> set chars) (rev s))"


section \<open>The decorator layer (identical in the three modules)\<close>

text \<open>
  \<^verbatim>\<open>setattr(fn, ATTR, spec)\<close> updates the object in place; the model returns the updated
  object, whose identity and behaviour are those of \<open>fn\<close>. The object is a function (a
  \<^verbatim>\<open>def\<close> in a class body) or a class, on which Python lets any attribute be set.
\<close>

definition set_ws_route_spec :: "'b pyobject \<Rightarrow> ref \<Rightarrow> 'b pyobject" where
  "set_ws_route_spec fn spec = fn\<lparr>ws_route_spec_attr := Some spec\<rparr>"

definition set_route_spec :: "'b pyobject \<Rightarrow> ref \<Rightarrow> 'b pyobject" where
  "set_route_spec fn spec = fn\<lparr>route_spec_attr := Some spec\<rparr>"

definition set_router_spec :: "'b router \<Rightarrow> ref \<Rightarrow> 'b router" where
  "set_router_spec router spec = router\<lparr>router_spec_attr := Some spec\<rparr>"

definition set_router_lifespan_marker :: "'b pyobject \<Rightarrow> 'b pyobject" where
  "set_router_lifespan_marker lifespan = lifespan\<lparr>router_lifespan_attr := True\<rparr>"

text \<open>
  \<^verbatim>\<open>ROUTE.__call__(self, fn)\<close> and \<^verbatim>\<open>WEBSOCKET.__call__(self, fn)\<close>: the decorator instance
  \<open>self\<close> is itself the specification that is attached, and \<open>fn\<close> is returned.
\<close>

definition ROUTE_call :: "ref \<Rightarrow> 'b pyobject \<Rightarrow> 'b pyobject" where
  "ROUTE_call self fn = set_route_spec fn self"

definition WEBSOCKET_call :: "ref \<Rightarrow> 'b pyobject \<Rightarrow> 'b pyobject" where
  "WEBSOCKET_call self fn = set_ws_route_spec fn self"

text \<open>
  \<^verbatim>\<open>ROUTER\<close>, applied to a class (bare, or after taking keyword arguments): the argument
  \<open>spec\<close> is the value of \<^verbatim>\<open>RouterSpec(**kwargs)\<close>. The following \<^verbatim>\<open>dataclass(cls)\<close>
  synthesises the record methods of the class and attaches none of the attributes
  above; \<open>getmembers\<close> of the model is that of an instance of the finished class.
\<close>

definition ROUTER :: "'rs \<Rightarrow> 'b router \<Rightarrow> ('rs, 'r) store \<Rightarrow> 'b router \<times> ('rs, 'r) store" where
  "ROUTER spec cls s = (let (r, s') = new_router_spec spec s in (set_router_spec cls r, s'))"


section \<open>The discovery layer\<close>

definition find_router_spec :: "'b router \<Rightarrow> ref option" where
  "find_router_spec router = router_spec_attr router"

definition find_routes_from_router :: "'b router \<Rightarrow> ('b pyobject \<times> ref) list" where
  "find_routes_from_router router =
     [(member, the (route_spec_attr member)).
        (_, member) \<leftarrow> getmembers router, route_spec_attr member \<noteq> None]"

definition find_websocket_routes_from_router :: "'b router \<Rightarrow> ('b pyobject \<times> ref) list" where
  "find_websocket_routes_from_router router =
     [(member, the (ws_route_spec_attr member)).
        (_, member) \<leftarrow> getmembers router, ws_route_spec_attr member \<noteq> None]"

record 'b RouterMembers =
  rm_spec :: ref
  rm_routes :: "('b pyobject \<times> ref) list"
  rm_websocket_routes :: "('b pyobject \<times> ref) list"

text \<open>\<^verbatim>\<open>inspect_router\<close> of \<^verbatim>\<open>starlette.py\<close> and \<^verbatim>\<open>litestar.py\<close>.\<close>

definition inspect_router :: "'b router \<Rightarrow> error + 'b RouterMembers" where
  "inspect_router router =
     (case find_router_spec router of
        None \<Rightarrow> Inl (TypeError ''router classes must be decorated with @router decorator'')
      | Some spec \<Rightarrow>
          Inr \<lparr>rm_spec = spec,
               rm_routes = find_routes_from_router router,
               rm_websocket_routes = find_websocket_routes_from_router router\<rparr>)"


section \<open>\<^verbatim>\<open>httprouter/starlette.py\<close>\<close>

type_synonym Method = string

record st_ROUTE =
  st_path :: string
  st_include_in_schema :: bool
  st_name :: "string option"
  st_middleware :: "pyval list option"
  st_methods :: "Method list"

record st_RouterSpec =
  st_prefix :: string
  st_router_middleware :: "pyval list option"

type_synonym st_store = "(st_RouterSpec, st_ROUTE) store"

text \<open>
  The generated \<^verbatim>\<open>__init__\<close> of the \<^verbatim>\<open>ROUTE\<close> dataclass and of its five subclasses. A keyword
  argument that the caller leaves out is \<open>None\<close> and takes the default of the field; the
  subclasses differ in the default of \<^verbatim>\<open>methods\<close> only.
\<close>

definition st_ROUTE_init ::
  "Method list \<Rightarrow> string \<Rightarrow> bool option \<Rightarrow> string option \<Rightarrow> pyval list option \<Rightarrow>
     Method list option \<Rightarrow> st_ROUTE" where
  "st_ROUTE_init default_methods path include_in_schema name middleware methods =
     \<lparr>st_path = path,
      st_include_in_schema = (case include_in_schema of None \<Rightarrow> True | Some b \<Rightarrow> b),
      st_name = name,
      st_middleware = middleware,
      st_methods = (case methods of None \<Rightarrow> default_methods | Some ms \<Rightarrow> ms)\<rparr>"

definition st_GET where "st_GET = st_ROUTE_init [''GET'']"
definition st_POST where "st_POST = st_ROUTE_init [''POST'']"
definition st_PUT where "st_PUT = st_ROUTE_init [''PUT'']"
definition st_PATCH where "st_PATCH = st_ROUTE_init [''PATCH'']"
definition st_DELETE where "st_DELETE = st_ROUTE_init [''DELETE'']"

text \<open>What the host receives: the keyword arguments of \<^verbatim>\<open>Route\<close> and \<^verbatim>\<open>WebSocketRoute\<close>.\<close>

datatype 'b st_host_route =
    Route "'b pyobject" st_ROUTE
  | WebSocketRoute "'b pyobject" WEBSOCKET

record 'b Starlette =
  st_routes :: "'b st_host_route list"

definition concat_seq :: "'a list option \<Rightarrow> 'a list option \<Rightarrow> 'a list option" where
  "concat_seq a b =
     (if Option.is_none a \<and> Option.is_none b then None
      else if Option.is_none a then b
      else if Option.is_none b then a
      else Some (the a @ the b))"

datatype st_spec = IsRoute st_ROUTE | IsWebsocket WEBSOCKET

fun spec_path :: "st_spec \<Rightarrow> string" where
  "spec_path (IsRoute r) = st_path r"
| "spec_path (IsWebsocket w) = ws_path w"

definition get_path :: "string \<Rightarrow> st_RouterSpec \<Rightarrow> st_spec \<Rightarrow> string" where
  "get_path mount_prefix router_spec spec =
     (let mount_prefix = rstrip ''/'' mount_prefix;
          router_prefix = lstrip ''/'' (rstrip ''/'' (st_prefix router_spec));
          path = lstrip ''/'' (spec_path spec)
      in if router_prefix = [] then mount_prefix @ ''/'' @ path
         else mount_prefix @ ''/'' @ router_prefix @ ''/'' @ path)"

text \<open>The body of the first loop of \<^verbatim>\<open>mount_router\<close>, for one \<open>(fn, route_spec)\<close> pair.\<close>

definition st_mount_route ::
  "string \<Rightarrow> ref \<Rightarrow> 'b pyobject \<times> ref \<Rightarrow> 'b Starlette \<times> st_store \<Rightarrow> 'b Starlette \<times> st_store" where
  "st_mount_route prefix spec = (\<lambda>(fn, route_spec) (app, s).
     (let (route_spec, s) = replace_route route_spec s;
          merged = concat_seq (st_router_middleware (router_specs s spec))
                              (st_middleware (route_specs s route_spec));
          s = assign_route route_spec (\<lambda>v. v\<lparr>st_middleware := merged\<rparr>) s;
          p = get_path prefix (router_specs s spec) (IsRoute (route_specs s route_spec));
          s = assign_route route_spec (\<lambda>v. v\<lparr>st_path := p\<rparr>) s;
          route = Route fn (route_specs s route_spec)
      in (app\<lparr>st_routes := st_routes app @ [route]\<rparr>, s)))"

text \<open>The body of the second loop, for one \<open>(ws_fn, ws_spec)\<close> pair.\<close>

definition st_mount_websocket ::
  "string \<Rightarrow> ref \<Rightarrow> 'b pyobject \<times> ref \<Rightarrow> 'b Starlette \<times> st_store \<Rightarrow> 'b Starlette \<times> st_store" where
  "st_mount_websocket prefix spec = (\<lambda>(ws_fn, ws_spec) (app, s).
     (let (ws_spec, s) = replace_websocket ws_spec s;
          p = get_path prefix (router_specs s spec) (IsWebsocket (ws_specs s ws_spec));
          s = assign_websocket ws_spec (\<lambda>v. v\<lparr>ws_path := p\<rparr>) s;
          ws_route = WebSocketRoute ws_fn (ws_specs s ws_spec)
      in (app\<lparr>st_routes := st_routes app @ [ws_route]\<rparr>, s)))"

text \<open>
  \<^verbatim>\<open>mount_router(app, router, *, prefix="")\<close>. The result is the exception raised, or \<open>()\<close>
  for the return of \<^verbatim>\<open>None\<close>, together with the host application and the store as the call
  leaves them (also when it raises). \<^verbatim>\<open>asdict\<close> copies the field values of a specification
  into the keyword arguments of the host's constructor; the fields of this module hold
  strings, booleans and lists of strings and of \<^verbatim>\<open>Middleware\<close> objects (no dataclass
  instances), which \<^verbatim>\<open>asdict\<close> copies as they are, so the model hands on the record.
\<close>

definition starlette_mount_router ::
  "'b Starlette \<Rightarrow> 'b router \<Rightarrow> string \<Rightarrow> st_store \<Rightarrow> (error + unit) \<times> 'b Starlette \<times> st_store" where
  "starlette_mount_router app router prefix s =
     (case inspect_router router of
        Inl e \<Rightarrow> (Inl e, app, s)
      | Inr members \<Rightarrow>
          (let (spec, s) = replace_router_spec (rm_spec members) s;
               (app, s) = fold (st_mount_route prefix spec) (rm_routes members) (app, s);
               (app, s) = fold (st_mount_websocket prefix spec) (rm_websocket_routes members) (app, s)
           in (Inr (), app, s)))"


section \<open>\<^verbatim>\<open>httprouter/litestar.py\<close>\<close>

text \<open>
  \<^verbatim>\<open>ROUTE\<close> has 41 fields and \<^verbatim>\<open>RouterSpec\<close> 28. The records name the fields that
  \<^verbatim>\<open>mount_router\<close> reads or writes, the path and the HTTP method; the remaining
  fields, which the module hands to the host through \<^verbatim>\<open>asdict\<close>, are the name-value
  list of the last field. \<open>None\<close> for \<^verbatim>\<open>include_in_schema\<close> is the sentinel \<^verbatim>\<open>lt.Empty\<close>.
\<close>

record ls_ROUTE =
  ls_path :: pyval
  ls_http_method :: pyval
  ls_responses :: "(int \<rightharpoonup> pyval) option"
  ls_tags :: "string list option"
  ls_options :: "(string \<times> optval) list"

record ls_RouterSpec =
  ls_prefix :: string
  ls_include_in_schema :: "bool option"
  ls_router_tags :: "string list option"
  ls_router_responses :: "(int \<rightharpoonup> pyval) option"
  ls_router_options :: "(string \<times> optval) list"

type_synonym ls_store = "(ls_RouterSpec, ls_ROUTE) store"

text \<open>
  The generated \<^verbatim>\<open>__init__\<close> of \<^verbatim>\<open>ROUTE\<close> and its subclasses: \<^verbatim>\<open>http_method\<close> left out
  (\<open>None\<close>) takes the default of the class, \<^verbatim>\<open>HttpMethod.GET\<close> (the string enum member
  \<^verbatim>\<open>"GET"\<close>) for \<^verbatim>\<open>ROUTE\<close>.
\<close>

definition ls_ROUTE_init ::
  "pyval \<Rightarrow> pyval \<Rightarrow> pyval option \<Rightarrow> (int \<rightharpoonup> pyval) option \<Rightarrow> string list option \<Rightarrow>
     (string \<times> optval) list \<Rightarrow> ls_ROUTE" where
  "ls_ROUTE_init default_method path http_method responses tags options =
     \<lparr>ls_path = path,
      ls_http_method = (case http_method of None \<Rightarrow> default_method | Some m \<Rightarrow> m),
      ls_responses = responses,
      ls_tags = tags,
      ls_options = options\<rparr>"

definition ls_GET where "ls_GET = ls_ROUTE_init (PyStr ''GET'')"
definition ls_POST where "ls_POST = ls_ROUTE_init (PyStr ''POST'')"
definition ls_PUT where "ls_PUT = ls_ROUTE_init (PyStr ''PUT'')"
definition ls_PATCH where "ls_PATCH = ls_ROUTE_init (PyStr ''PATCH'')"
definition ls_DELETE where "ls_DELETE = ls_ROUTE_init (PyStr ''DELETE'')"

text \<open>
  What the host receives: the keyword arguments of the handlers built by \<^verbatim>\<open>route\<close> and
  \<^verbatim>\<open>websocket\<close>, of \<^verbatim>\<open>LitestarRouter\<close> (all of \<^verbatim>\<open>asdict(spec)\<close> but \<^verbatim>\<open>responses\<close> and
  \<^verbatim>\<open>prefix\<close>, and \<^verbatim>\<open>path\<close>), the handlers registered on the router, and the routers
  registered on the application.
\<close>

datatype 'b ls_handler =
    HTTPRouteHandler "'b pyobject" ls_ROUTE
  | WebsocketRouteHandler "'b pyobject" string "string option"

record 'b LitestarRouter =
  lr_path :: string
  lr_include_in_schema :: "bool option"
  lr_tags :: "string list option"
  lr_options :: "(string \<times> optval) list"
  lr_route_handlers :: "'b ls_handler list"

record 'b Litestar =
  ls_registered :: "'b LitestarRouter list"

definition merge :: "('k \<rightharpoonup> 'v) option \<Rightarrow> ('k \<rightharpoonup> 'v) option \<Rightarrow> ('k \<rightharpoonup> 'v) option" where
  "merge a b =
     (if Option.is_none a \<and> Option.is_none b then None
      else if Option.is_none a then b
      else if Option.is_none b then a
      else Some (the a ++ the b))"

text \<open>
  \<^verbatim>\<open>list({*a, *b})\<close>: the order in which Python iterates a set is not fixed by the
  language, so the function \<open>list_of\<close> that lists a set is a parameter.
\<close>

definition concat_unique ::
  "('v set \<Rightarrow> 'v list) \<Rightarrow> 'v list option \<Rightarrow> 'v list option \<Rightarrow> 'v list option" where
  "concat_unique list_of a b =
     (if Option.is_none a \<and> Option.is_none b then None
      else if Option.is_none a then b
      else if Option.is_none b then a
      else Some (list_of (set (the a) \<union> set (the b))))"

text \<open>
  \<^verbatim>\<open>asdict(route_spec)\<close> and \<^verbatim>\<open>asdict(spec)\<close>: the path, the method, the prefix, the flag and
  the tags are strings, booleans and lists of strings, copied as they are. The entry
  \<^verbatim>\<open>responses\<close> of the result is replaced (for a route) or deleted (for the router) by the
  statement that follows, before the host sees it, so the record keeps the field.
\<close>

definition ls_asdict_route :: "ls_ROUTE \<Rightarrow> ls_ROUTE" where
  "ls_asdict_route v = v\<lparr>ls_options := asdict_options (ls_options v)\<rparr>"

definition ls_asdict_router :: "ls_RouterSpec \<Rightarrow> ls_RouterSpec" where
  "ls_asdict_router v = v\<lparr>ls_router_options := asdict_options (ls_router_options v)\<rparr>"

text \<open>The body of the first loop of \<^verbatim>\<open>mount_router\<close>, for one \<open>(fn, route_spec)\<close> pair.\<close>

definition ls_mount_route ::
  "ref \<Rightarrow> 'b pyobject \<times> ref \<Rightarrow> 'b LitestarRouter \<times> ls_store \<Rightarrow> 'b LitestarRouter \<times> ls_store" where
  "ls_mount_route spec = (\<lambda>(fn, route_spec) (api_router, s).
     (let (route_spec, s) = replace_route route_spec s;
          merged = merge (ls_router_responses (router_specs s spec))
                         (ls_responses (route_specs s route_spec));
          s = assign_route route_spec (\<lambda>v. v\<lparr>ls_responses := merged\<rparr>) s;
          options = ls_asdict_route (route_specs s route_spec);
          options = options\<lparr>ls_responses := ls_router_responses (router_specs s spec)\<rparr>;
          controller = HTTPRouteHandler fn options
      in (api_router\<lparr>lr_route_handlers := lr_route_handlers api_router @ [controller]\<rparr>, s)))"

text \<open>The body of the second loop, for one \<open>(ws_fn, ws_spec)\<close> pair.\<close>

definition ls_mount_websocket ::
  "ls_store \<Rightarrow> 'b pyobject \<times> ref \<Rightarrow> 'b LitestarRouter \<Rightarrow> 'b LitestarRouter" where
  "ls_mount_websocket s = (\<lambda>(ws_fn, ws_spec) api_router.
     (let ws_controller =
            WebsocketRouteHandler ws_fn (ws_path (ws_specs s ws_spec)) (ws_name (ws_specs s ws_spec))
      in api_router\<lparr>lr_route_handlers := lr_route_handlers api_router @ [ws_controller]\<rparr>))"

text \<open>
  \<^verbatim>\<open>mount_router(app, router, *, prefix="", responses=None, tags=None,
  include_in_schema=lt.Empty)\<close>.
\<close>

definition litestar_mount_router ::
  "(string set \<Rightarrow> string list) \<Rightarrow> 'b Litestar \<Rightarrow> 'b router \<Rightarrow> string \<Rightarrow> (int \<rightharpoonup> pyval) option \<Rightarrow>
     string list option \<Rightarrow> bool option \<Rightarrow> ls_store \<Rightarrow> (error + unit) \<times> 'b Litestar \<times> ls_store" where
  "litestar_mount_router list_of app router prefix responses tags include_in_schema s =
     (case inspect_router router of
        Inl e \<Rightarrow> (Inl e, app, s)
      | Inr members \<Rightarrow>
          (let (spec, s) = replace_router_spec (rm_spec members) s;
               s = assign_router_spec spec
                     (\<lambda>v. v\<lparr>ls_router_responses := merge responses (ls_router_responses v)\<rparr>) s;
               s = assign_router_spec spec
                     (\<lambda>v. v\<lparr>ls_router_tags := concat_unique list_of tags (ls_router_tags v)\<rparr>) s;
               s = (if prefix \<noteq> []
                    then assign_router_spec spec
                           (\<lambda>v. v\<lparr>ls_prefix := rstrip ''/'' prefix @ ''/'' @ lstrip ''/'' (ls_prefix v)\<rparr>) s
                    else s);
               s = (if \<not> Option.is_none include_in_schema
                    then assign_router_spec spec (\<lambda>v. v\<lparr>ls_include_in_schema := include_in_schema\<rparr>) s
                    else s);
               options = ls_asdict_router (router_specs s spec);
               api_router = \<lparr>lr_path = ls_prefix (router_specs s spec),
                             lr_include_in_schema = ls_include_in_schema options,
                             lr_tags = ls_router_tags options,
                             lr_options = ls_router_options options,
                             lr_route_handlers = []\<rparr>;
               (api_router, s) = fold (ls_mount_route spec) (rm_routes members) (api_router, s);
               api_router = fold (ls_mount_websocket s) (rm_websocket_routes members) api_router
           in (Inr (), app\<lparr>ls_registered := ls_registered app @ [api_router]\<rparr>, s)))"


section \<open>\<^verbatim>\<open>httprouter/fastapi.py\<close>\<close>

text \<open>
  \<^verbatim>\<open>ROUTE\<close> has 21 fields; the module passes all of them to the host through \<^verbatim>\<open>asdict\<close>.
  The record names the path, the status code and the methods, and lists the others.
\<close>

record fa_ROUTE =
  fa_path :: string
  fa_status_code :: "int option"
  fa_methods :: "Method list"
  fa_options :: "(string \<times> optval) list"

record fa_RouterSpec =
  fa_prefix :: string
  fa_tags :: "pyval list option"
  fa_responses :: "(pyval \<rightharpoonup> pyval) option"
  fa_deprecated :: "bool option"
  fa_include_in_schema :: bool
  fa_dependencies :: "optval list option"
  fa_default_response_class :: pyval

type_synonym fa_store = "(fa_RouterSpec, fa_ROUTE) store"

definition fa_ROUTE_init ::
  "Method list \<Rightarrow> string \<Rightarrow> int option \<Rightarrow> (string \<times> optval) list \<Rightarrow> Method list option \<Rightarrow> fa_ROUTE" where
  "fa_ROUTE_init default_methods path status_code options methods =
     \<lparr>fa_path = path,
      fa_status_code = status_code,
      fa_methods = (case methods of None \<Rightarrow> default_methods | Some ms \<Rightarrow> ms),
      fa_options = options\<rparr>"

definition fa_GET where "fa_GET = fa_ROUTE_init [''GET'']"
definition fa_POST where "fa_POST = fa_ROUTE_init [''POST'']"
definition fa_PUT where "fa_PUT = fa_ROUTE_init [''PUT'']"
definition fa_PATCH where "fa_PATCH = fa_ROUTE_init [''PATCH'']"
definition fa_DELETE where "fa_DELETE = fa_ROUTE_init [''DELETE'']"


subsection \<open>Asynchronous context managers\<close>

text \<open>
  The lifespan hook is built by \<^verbatim>\<open>contextlib.asynccontextmanager\<close> and entered by an
  \<^verbatim>\<open>async with\<close> statement. Mounting and the host's start-up run one step after the other,
  so a piece of code is a function on a state \<open>'s\<close> that returns the exception it raised,
  if any, and the state it left.

  An asynchronous context manager is its \<^verbatim>\<open>__aenter__\<close> and its \<^verbatim>\<open>__aexit__\<close>; the latter is
  given the exception that left the block (\<open>None\<close> on a normal exit) and raises (\<open>Inl\<close>) or
  returns whether the exception is suppressed (\<open>Inr\<close>).
\<close>

record 's acm =
  aenter :: "'s \<Rightarrow> error option \<times> 's"
  aexit :: "error option \<Rightarrow> 's \<Rightarrow> (error + bool) \<times> 's"

text \<open>
  An asynchronous generator that yields once, as \<^verbatim>\<open>asynccontextmanager\<close> requires: the
  code from the start to the \<^verbatim>\<open>yield\<close>, the code run when it is resumed at the \<^verbatim>\<open>yield\<close>
  (\<open>None\<close>: it finished), and the code run when an exception is thrown in at the
  \<^verbatim>\<open>yield\<close> (\<open>None\<close>: it caught the exception and finished).
\<close>

record 's agen =
  run_to_yield :: "'s \<Rightarrow> error option \<times> 's"
  resume :: "'s \<Rightarrow> error option \<times> 's"
  throw :: "error \<Rightarrow> 's \<Rightarrow> error option \<times> 's"

text \<open>
  \<^verbatim>\<open>asynccontextmanager\<close>: \<^verbatim>\<open>__aenter__\<close> runs the generator to its \<^verbatim>\<open>yield\<close>; \<^verbatim>\<open>__aexit__\<close>
  resumes it and returns \<^verbatim>\<open>False\<close>, or throws the exception in and returns \<^verbatim>\<open>True\<close> when the
  generator finished, \<^verbatim>\<open>False\<close> when it raised the same exception again, and raises what
  else the generator raised.
\<close>

definition asynccontextmanager :: "'s agen \<Rightarrow> 's acm" where
  "asynccontextmanager g =
     \<lparr>aenter = run_to_yield g,
      aexit = (\<lambda>exc s.
        case exc of
          None \<Rightarrow> (case resume g s of
                      (None, s') \<Rightarrow> (Inr False, s')
                    | (Some e, s') \<Rightarrow> (Inl e, s'))
        | Some v \<Rightarrow> (case throw g v s of
                      (None, s') \<Rightarrow> (Inr True, s')
                    | (Some e, s') \<Rightarrow> (if e = v then (Inr False, s') else (Inl e, s'))))\<rparr>"

text \<open>\<^verbatim>\<open>async with cm: body\<close>.\<close>

definition async_with ::
  "'s acm \<Rightarrow> ('s \<Rightarrow> error option \<times> 's) \<Rightarrow> 's \<Rightarrow> error option \<times> 's" where
  "async_with cm body s =
     (case aenter cm s of
        (Some e, s1) \<Rightarrow> (Some e, s1)
      | (None, s1) \<Rightarrow>
          (case body s1 of
             (None, s2) \<Rightarrow>
               (case aexit cm None s2 of
                  (Inl e, s3) \<Rightarrow> (Some e, s3)
                | (Inr _, s3) \<Rightarrow> (None, s3))
           | (Some v, s2) \<Rightarrow>
               (case aexit cm (Some v) s2 of
                  (Inl e, s3) \<Rightarrow> (Some e, s3)
                | (Inr suppress, s3) \<Rightarrow> (if suppress then None else Some v, s3))))"

subsection \<open>The lifespan decorator and the discovery of the hook\<close>

text \<open>
  What a member of a router of this module does when it is called on the instance with
  no further argument: an endpoint (which the module never calls), or a function that
  returns an asynchronous context manager.
\<close>

datatype 's behaviour = Endpoint | ContextManager "'s acm"

text \<open>
  \<^verbatim>\<open>LIFESPAN(method)\<close>: \<open>call method\<close> is the generator that the undecorated method returns.
  \<^verbatim>\<open>asynccontextmanager(method)\<close> is a new function object, to which \<^verbatim>\<open>functools.wraps\<close>
  gives the attributes of \<open>method\<close>; its identity is the argument \<open>new_ident\<close>.
\<close>

definition LIFESPAN :: "nat \<Rightarrow> 's agen pyobject \<Rightarrow> 's behaviour pyobject" where
  "LIFESPAN new_ident method =
     (let wrapped = \<lparr>ident = new_ident,
                     call = ContextManager (asynccontextmanager (call method)),
                     route_spec_attr = route_spec_attr method,
                     ws_route_spec_attr = ws_route_spec_attr method,
                     router_lifespan_attr = router_lifespan_attr method\<rparr>
      in set_router_lifespan_marker wrapped)"

fun find_lifespan_loop :: "(string \<times> 'b pyobject) list \<Rightarrow> 'b pyobject option" where
  "find_lifespan_loop [] = None"
| "find_lifespan_loop ((_, member) # rest) =
     (if router_lifespan_attr member then Some member else find_lifespan_loop rest)"

definition find_lifespan :: "'b router \<Rightarrow> 'b pyobject option" where
  "find_lifespan router = find_lifespan_loop (getmembers router)"

record 'b fa_RouterMembers = "'b RouterMembers" +
  rm_lifespan :: "'b pyobject option"

definition fastapi_inspect_router :: "'b router \<Rightarrow> error + 'b fa_RouterMembers" where
  "fastapi_inspect_router router =
     (case find_router_spec router of
        None \<Rightarrow> Inl (TypeError ''router classes must be decorated with @router decorator'')
      | Some spec \<Rightarrow>
          Inr \<lparr>rm_spec = spec,
               rm_routes = find_routes_from_router router,
               rm_websocket_routes = find_websocket_routes_from_router router,
               rm_lifespan = find_lifespan router\<rparr>)"

text \<open>
  \<^verbatim>\<open>lifespan()\<close> in the \<^verbatim>\<open>async with\<close> statement of the wrapper. An object that is no
  context manager makes the statement raise \<^verbatim>\<open>TypeError\<close> before anything is entered.
\<close>

fun lifespan_call :: "'s behaviour \<Rightarrow> 's acm" where
  "lifespan_call (ContextManager cm) = cm"
| "lifespan_call Endpoint =
     \<lparr>aenter = (\<lambda>s. (Some (TypeError ''object does not support the asynchronous context manager protocol''), s)),
      aexit = (\<lambda>exc s. (Inr False, s))\<rparr>"

text \<open>
  The generator \<^verbatim>\<open>async def wrapper(_): async with lifespan(): yield None\<close>: it yields
  inside the block of the hook, so resuming it leaves the block normally and throwing
  into it leaves the block with the exception.
\<close>

definition wrapper :: "'s behaviour pyobject \<Rightarrow> 's agen" where
  "wrapper lifespan =
     (let cm = lifespan_call (call lifespan)
      in \<lparr>run_to_yield = aenter cm,
          resume = (\<lambda>s. case aexit cm None s of
                           (Inl e, s') \<Rightarrow> (Some e, s')
                         | (Inr _, s') \<Rightarrow> (None, s')),
          throw = (\<lambda>v s. case aexit cm (Some v) s of
                            (Inl e, s') \<Rightarrow> (Some e, s')
                          | (Inr suppress, s') \<Rightarrow> (if suppress then None else Some v, s'))\<rparr>)"

definition make_lifespan_for_router ::
  "'s behaviour pyobject option \<Rightarrow> (pyval \<Rightarrow> 's acm) option" where
  "make_lifespan_for_router lifespan =
     (case lifespan of
        None \<Rightarrow> None
      | Some l \<Rightarrow> Some (\<lambda>_. asynccontextmanager (wrapper l)))"

subsection \<open>Mounting\<close>

text \<open>
  What the host receives: the keyword arguments of \<^verbatim>\<open>APIRouter\<close>, of \<^verbatim>\<open>add_api_route\<close> and
  \<^verbatim>\<open>add_api_websocket_route\<close>, and of \<^verbatim>\<open>include_router\<close>.
\<close>

datatype 'b fa_host_route =
    APIRoute "'b pyobject" fa_ROUTE
  | APIWebSocketRoute "'b pyobject" WEBSOCKET

record 's APIRouter =
  ar_lifespan :: "(pyval \<Rightarrow> 's acm) option"
  ar_spec :: fa_RouterSpec
  ar_routes :: "'s behaviour fa_host_route list"

record 's include_router_call =
  ir_router :: "'s APIRouter"
  ir_prefix :: string
  ir_tags :: "pyval list option"
  ir_responses :: "(pyval \<rightharpoonup> pyval) option"
  ir_deprecated :: "bool option"
  ir_include_in_schema :: bool
  ir_dependencies :: "pyval list option"
  ir_default_response_class :: pyval

record 's FastAPI =
  fa_included :: "'s include_router_call list"

text \<open>
  \<^verbatim>\<open>asdict(route_spec)\<close> and \<^verbatim>\<open>asdict(members.spec)\<close>: the prefix, the paths, the methods, the
  tags (strings or enumeration members), the flags and the response class are copied as
  they are, and so are the dictionaries of plain values of \<^verbatim>\<open>responses\<close>.
\<close>

definition fa_asdict_route :: "fa_ROUTE \<Rightarrow> fa_ROUTE" where
  "fa_asdict_route v = v\<lparr>fa_options := asdict_options (fa_options v)\<rparr>"

definition fa_asdict_router :: "fa_RouterSpec \<Rightarrow> fa_RouterSpec" where
  "fa_asdict_router v = v\<lparr>fa_dependencies := map_option (map asdict_inner) (fa_dependencies v)\<rparr>"

definition fa_add_api_route ::
  "fa_store \<Rightarrow> 's behaviour pyobject \<times> ref \<Rightarrow> 's APIRouter \<Rightarrow> 's APIRouter" where
  "fa_add_api_route s = (\<lambda>(fn, route_spec) api_router.
     api_router\<lparr>ar_routes := ar_routes api_router @
        [APIRoute fn (fa_asdict_route (route_specs s route_spec))]\<rparr>)"

definition fa_add_api_websocket_route ::
  "fa_store \<Rightarrow> 's behaviour pyobject \<times> ref \<Rightarrow> 's APIRouter \<Rightarrow> 's APIRouter" where
  "fa_add_api_websocket_route s = (\<lambda>(ws_fn, ws_spec) api_router.
     api_router\<lparr>ar_routes := ar_routes api_router @ [APIWebSocketRoute ws_fn (ws_specs s ws_spec)]\<rparr>)"

text \<open>
  \<^verbatim>\<open>mount_router(app, router, *, prefix, tags, responses, deprecated, include_in_schema,
  dependencies, default_response_class)\<close>.
\<close>

definition fastapi_mount_router ::
  "'s FastAPI \<Rightarrow> 's behaviour router \<Rightarrow> string \<Rightarrow> pyval list option \<Rightarrow>
     (pyval \<rightharpoonup> pyval) option \<Rightarrow> bool option \<Rightarrow> bool \<Rightarrow> pyval list option \<Rightarrow> pyval \<Rightarrow>
     fa_store \<Rightarrow> (error + unit) \<times> 's FastAPI \<times> fa_store" where
  "fastapi_mount_router app router prefix tags responses deprecated include_in_schema
       dependencies default_response_class s =
     (case fastapi_inspect_router router of
        Inl e \<Rightarrow> (Inl e, app, s)
      | Inr members \<Rightarrow>
          (let lifespan = make_lifespan_for_router (rm_lifespan members);
               api_router = \<lparr>ar_lifespan = lifespan,
                             ar_spec = fa_asdict_router (router_specs s (rm_spec members)),
                             ar_routes = []\<rparr>;
               api_router = fold (fa_add_api_route s) (rm_routes members) api_router;
               api_router = fold (fa_add_api_websocket_route s) (rm_websocket_routes members) api_router;
               included = \<lparr>ir_router = api_router,
                           ir_prefix = prefix,
                           ir_tags = tags,
                           ir_responses = responses,
                           ir_deprecated = deprecated,
                           ir_include_in_schema = include_in_schema,
                           ir_dependencies = dependencies,
                           ir_default_response_class = default_response_class\<rparr>
           in (Inr (), app\<lparr>fa_included := fa_included app @ [included]\<rparr>, s)))"


section \<open>Notions used in the statements\<close>

text \<open>
  \<open>store_extends s s'\<close>: every object that exists in \<open>s\<close> exists in \<open>s'\<close> with the same
  field values; \<open>s'\<close> may hold new objects.
\<close>

definition store_extends :: "('rs, 'r) store \<Rightarrow> ('rs, 'r) store \<Rightarrow> bool" where
  "store_extends s s' \<longleftrightarrow>
     next_ref s \<le> next_ref s' \<and>
     (\<forall>a<next_ref s. router_specs s' a = router_specs s a \<and>
                      route_specs s' a = route_specs s a \<and>
                      ws_specs s' a = ws_specs s a)"

text \<open>
  \<open>router_allocated router s\<close>: the specification objects attached to the router and to
  its members exist in the store \<open>s\<close>, as every object that an attribute holds does.
\<close>

definition router_allocated :: "'b router \<Rightarrow> ('rs, 'r) store \<Rightarrow> bool" where
  "router_allocated router s \<longleftrightarrow>
     (case router_spec_attr router of None \<Rightarrow> True | Some a \<Rightarrow> a < next_ref s) \<and>
     list_all (\<lambda>(name, member).
        (case route_spec_attr member of None \<Rightarrow> True | Some r \<Rightarrow> r < next_ref s) \<and>
        (case ws_route_spec_attr member of None \<Rightarrow> True | Some w \<Rightarrow> w < next_ref s))
       (getmembers router)"

text \<open>
  The field values that lines 315 to 320 of \<^verbatim>\<open>litestar.py\<close> leave in the copy of a router
  specification \<open>v\<close>.
\<close>

definition ls_mounted_spec ::
  "(string set \<Rightarrow> string list) \<Rightarrow> string \<Rightarrow> (int \<rightharpoonup> pyval) option \<Rightarrow> string list option \<Rightarrow>
     bool option \<Rightarrow> ls_RouterSpec \<Rightarrow> ls_RouterSpec" where
  "ls_mounted_spec list_of prefix responses tags include_in_schema v =
     \<lparr>ls_prefix = (if prefix \<noteq> [] then rstrip ''/'' prefix @ ''/'' @ lstrip ''/'' (ls_prefix v)
                   else ls_prefix v),
      ls_include_in_schema = (if \<not> Option.is_none include_in_schema then include_in_schema
                              else ls_include_in_schema v),
      ls_router_tags = concat_unique list_of tags (ls_router_tags v),
      ls_router_responses = merge responses (ls_router_responses v),
      ls_router_options = ls_router_options v\<rparr>"

text \<open>
  A lifespan method of the shape \<^verbatim>\<open>setup; yield; teardown\<close>, or, when it is guarded, of the
  shape \<^verbatim>\<open>setup; try: yield; finally: teardown\<close> (the hook of \<^verbatim>\<open>tests/test_fastapi_router.py\<close>),
  and the generator it is: an exception thrown in at an unguarded \<^verbatim>\<open>yield\<close> leaves the
  generator at once.
\<close>

record 's hook =
  hook_setup :: "'s \<Rightarrow> 's"
  hook_guarded :: bool
  hook_teardown :: "'s \<Rightarrow> 's"

definition hook_generator :: "'s hook \<Rightarrow> 's agen" where
  "hook_generator h =
     \<lparr>run_to_yield = (\<lambda>s. (None, hook_setup h s)),
      resume = (\<lambda>s. (None, hook_teardown h s)),
      throw = (\<lambda>e s. (Some e, if hook_guarded h then hook_teardown h s else s))\<rparr>"


section \<open>Example routers\<close>

text \<open>
  The routers of the test suite, cut down to a few members, each built by the
  decorators from function objects that carry no attribute yet. \<open>getmembers\<close> lists the
  members by name.
\<close>

definition function_object :: "nat \<Rightarrow> 'b \<Rightarrow> 'b pyobject" where
  "function_object i b =
     \<lparr>ident = i, call = b, route_spec_attr = None, ws_route_spec_attr = None,
      router_lifespan_attr = False\<rparr>"

definition empty_store :: "'rs \<Rightarrow> 'r \<Rightarrow> ('rs, 'r) store" where
  "empty_store rs r =
     \<lparr>router_specs = (\<lambda>_. rs), route_specs = (\<lambda>_. r),
      ws_specs = (\<lambda>_. \<lparr>ws_path = [], ws_name = None\<rparr>), next_ref = 0\<rparr>"

definition st_example_class :: "unit router \<times> st_store" where
  "st_example_class =
     (let s = empty_store \<lparr>st_prefix = [], st_router_middleware = None\<rparr>
                          (st_GET [] None None None None);
          (get, s) = new_route (st_GET ''/get'' None None (Some [PyOpaque 2]) None) s;
          (post, s) = new_route (st_POST ''/post'' None None (Some [PyOpaque 3, PyOpaque 1]) None) s;
          (ws, s) = new_websocket \<lparr>ws_path = ''/ws'', ws_name = None\<rparr> s
      in (\<lparr>router_spec_attr = None,
           getmembers = [(''fake_get_handler'', ROUTE_call get (function_object 1 ())),
                         (''fake_post_handler'', ROUTE_call post (function_object 2 ())),
                         (''msg'', function_object 3 ()),
                         (''notify'', WEBSOCKET_call ws (function_object 4 ()))]\<rparr>, s))"

definition st_example :: "unit router \<times> st_store" where
  "st_example =
     (let (cls, s) = st_example_class
      in ROUTER \<lparr>st_prefix = ''/api'', st_router_middleware = Some [PyOpaque 1]\<rparr> cls s)"

definition ls_example_class :: "unit router \<times> ls_store" where
  "ls_example_class =
     (let s = empty_store \<lparr>ls_prefix = [], ls_include_in_schema = None, ls_router_tags = None,
                            ls_router_responses = None, ls_router_options = []\<rparr>
                          (ls_GET (PyStr []) None None None []);
          (get, s) = new_route (ls_GET (PyStr ''/get'') None None None []) s;
          (post, s) = new_route (ls_POST (PyStr ''/post'') None
                                   (Some [202 \<mapsto> PyStr ''route'']) None
                                   [(''status_code'', Plain (PyInt 202)),
                                    (''cache_control'', Instance [(''max_age'', Plain (PyInt 10))])]) s;
          (ws, s) = new_websocket \<lparr>ws_path = ''/ws'', ws_name = None\<rparr> s
      in (\<lparr>router_spec_attr = None,
           getmembers = [(''fake_get_handler'', ROUTE_call get (function_object 1 ())),
                         (''fake_post_handler'', ROUTE_call post (function_object 2 ())),
                         (''msg'', function_object 3 ()),
                         (''notify'', WEBSOCKET_call ws (function_object 4 ()))]\<rparr>, s))"

definition ls_example :: "unit router \<times> ls_store" where
  "ls_example =
     (let (cls, s) = ls_example_class
      in ROUTER \<lparr>ls_prefix = ''/v1'', ls_include_in_schema = None,
                 ls_router_tags = Some [''a'', ''b''],
                 ls_router_responses = Some [401 \<mapsto> PyStr ''router''],
                 ls_router_options = []\<rparr> cls s)"

record lifespan_flags =
  lifespan_started :: bool
  lifespan_stopped :: bool

definition test_hook :: "lifespan_flags hook" where
  "test_hook =
     \<lparr>hook_setup = (\<lambda>s. s\<lparr>lifespan_started := True\<rparr>),
      hook_guarded = True,
      hook_teardown = (\<lambda>s. s\<lparr>lifespan_stopped := True\<rparr>)\<rparr>"

definition unguarded_hook :: "lifespan_flags hook" where
  "unguarded_hook = test_hook\<lparr>hook_guarded := False\<rparr>"

definition fa_example_class :: "lifespan_flags hook \<Rightarrow> lifespan_flags behaviour router \<times> fa_store" where
  "fa_example_class h =
     (let s = empty_store \<lparr>fa_prefix = [], fa_tags = None, fa_responses = None,
                            fa_deprecated = None, fa_include_in_schema = True,
                            fa_dependencies = None, fa_default_response_class = PyOpaque 0\<rparr>
                          (fa_GET [] None [] None);
          (get, s) = new_route (fa_GET ''/get'' None [] None) s;
          (post, s) = new_route (fa_POST ''/post'' (Some 202) [] None) s;
          (ws, s) = new_websocket \<lparr>ws_path = ''/ws'', ws_name = None\<rparr> s
      in (\<lparr>router_spec_attr = None,
           getmembers = [(''fake_get_handler'', ROUTE_call get (function_object 1 Endpoint)),
                         (''fake_post_handler'', ROUTE_call post (function_object 2 Endpoint)),
                         (''lifespan'', LIFESPAN 6 (function_object 5 (hook_generator h))),
                         (''msg'', function_object 3 Endpoint),
                         (''notify'', WEBSOCKET_call ws (function_object 4 Endpoint))]\<rparr>, s))"

definition fa_example :: "lifespan_flags hook \<Rightarrow> lifespan_flags behaviour router \<times> fa_store" where
  "fa_example h =
     (let (cls, s) = fa_example_class h
      in ROUTER \<lparr>fa_prefix = ''/api'', fa_tags = Some [PyStr ''test''], fa_responses = None,
                 fa_deprecated = None, fa_include_in_schema = True,
                 fa_dependencies = None, fa_default_response_class = PyOpaque 0\<rparr> cls s)"


section \<open>The loops of the mount functions in closed form\<close>

lemma store_extends_refl: "store_extends s s"
  by (simp add: store_extends_def)

lemma store_extends_trans:
  "store_extends s s' \<Longrightarrow> store_extends s' s'' \<Longrightarrow> store_extends s s''"
  by (auto simp: store_extends_def)

lemma get_path_route_update [simp]:
  "get_path prefix rs (IsRoute (v\<lparr>st_middleware := m\<rparr>)) = get_path prefix rs (IsRoute v)"
  by (simp add: get_path_def)

lemma st_mount_route_eq:
  "st_mount_route prefix spec (fn, r) (app, s) =
     (let v = (route_specs s r)
            \<lparr>st_middleware := concat_seq (st_router_middleware (router_specs s spec))
                                         (st_middleware (route_specs s r)),
             st_path := get_path prefix (router_specs s spec) (IsRoute (route_specs s r))\<rparr>
      in (app\<lparr>st_routes := st_routes app @ [Route fn v]\<rparr>,
          s\<lparr>route_specs := (route_specs s)(next_ref s := v), next_ref := Suc (next_ref s)\<rparr>))"
  by (simp add: st_mount_route_def replace_route_def new_route_def assign_route_def Let_def)

lemma st_mount_websocket_eq:
  "st_mount_websocket prefix spec (fn, w) (app, s) =
     (let v = (ws_specs s w)
            \<lparr>ws_path := get_path prefix (router_specs s spec) (IsWebsocket (ws_specs s w))\<rparr>
      in (app\<lparr>st_routes := st_routes app @ [WebSocketRoute fn v]\<rparr>,
          s\<lparr>ws_specs := (ws_specs s)(next_ref s := v), next_ref := Suc (next_ref s)\<rparr>))"
  by (simp add: st_mount_websocket_def replace_websocket_def new_websocket_def
      assign_websocket_def Let_def)

lemma st_fold_routes:
  "\<forall>(fn, r)\<in>set xs. r < next_ref s \<Longrightarrow>
   fold (st_mount_route prefix spec) xs (app, s) = (app', s') \<Longrightarrow>
   st_routes app' = st_routes app @
           map (\<lambda>(fn, r). Route fn ((route_specs s r)
             \<lparr>st_middleware := concat_seq (st_router_middleware (router_specs s spec))
                                          (st_middleware (route_specs s r)),
              st_path := get_path prefix (router_specs s spec) (IsRoute (route_specs s r))\<rparr>)) xs
   \<and> store_extends s s' \<and> router_specs s' = router_specs s \<and> ws_specs s' = ws_specs s"
proof (induction xs arbitrary: app s)
  case Nil
  then show ?case by (simp add: store_extends_refl)
next
  case (Cons x xs)
  obtain fn r where x: "x = (fn, r)" by (cases x)
  define v where "v = (route_specs s r)
             \<lparr>st_middleware := concat_seq (st_router_middleware (router_specs s spec))
                                          (st_middleware (route_specs s r)),
              st_path := get_path prefix (router_specs s spec) (IsRoute (route_specs s r))\<rparr>"
  define s1 where "s1 = s\<lparr>route_specs := (route_specs s)(next_ref s := v), next_ref := Suc (next_ref s)\<rparr>"
  define app1 where "app1 = app\<lparr>st_routes := st_routes app @ [Route fn v]\<rparr>"
  have step: "st_mount_route prefix spec (fn, r) (app, s) = (app1, s1)"
    by (simp add: st_mount_route_eq v_def s1_def app1_def Let_def)
  have ext1: "store_extends s s1" by (simp add: s1_def store_extends_def)
  have b: "\<forall>(fn, r)\<in>set xs. r < next_ref s1" using Cons.prems(1) by (fastforce simp: s1_def)
  have f: "fold (st_mount_route prefix spec) xs (app1, s1) = (app', s')"
    using Cons.prems(2) by (simp add: x step)
  have same: "map (\<lambda>(fn, r). Route fn ((route_specs s1 r)
             \<lparr>st_middleware := concat_seq (st_router_middleware (router_specs s1 spec))
                                          (st_middleware (route_specs s1 r)),
              st_path := get_path prefix (router_specs s1 spec) (IsRoute (route_specs s1 r))\<rparr>)) xs
      = map (\<lambda>(fn, r). Route fn ((route_specs s r)
             \<lparr>st_middleware := concat_seq (st_router_middleware (router_specs s spec))
                                          (st_middleware (route_specs s r)),
              st_path := get_path prefix (router_specs s spec) (IsRoute (route_specs s r))\<rparr>)) xs"
    using Cons.prems(1) by (auto simp: s1_def)
  have IH: "st_routes app' = st_routes app1 @
           map (\<lambda>(fn, r). Route fn ((route_specs s1 r)
             \<lparr>st_middleware := concat_seq (st_router_middleware (router_specs s1 spec))
                                          (st_middleware (route_specs s1 r)),
              st_path := get_path prefix (router_specs s1 spec) (IsRoute (route_specs s1 r))\<rparr>)) xs
   \<and> store_extends s1 s' \<and> router_specs s' = router_specs s1 \<and> ws_specs s' = ws_specs s1"
    by (rule Cons.IH[OF b f])
  have "store_extends s s'" using IH ext1 by (blast intro: store_extends_trans)
  moreover have "st_routes app' = st_routes app @
           map (\<lambda>(fn, r). Route fn ((route_specs s r)
             \<lparr>st_middleware := concat_seq (st_router_middleware (router_specs s spec))
                                          (st_middleware (route_specs s r)),
              st_path := get_path prefix (router_specs s spec) (IsRoute (route_specs s r))\<rparr>)) (x # xs)"
    using IH same by (simp add: x app1_def v_def)
  moreover have "router_specs s' = router_specs s \<and> ws_specs s' = ws_specs s"
    using IH by (simp add: s1_def)
  ultimately show ?case by simp
qed

lemma st_fold_websockets:
  "\<forall>(fn, w)\<in>set xs. w < next_ref s \<Longrightarrow>
   fold (st_mount_websocket prefix spec) xs (app, s) = (app', s') \<Longrightarrow>
   st_routes app' = st_routes app @
           map (\<lambda>(fn, w). WebSocketRoute fn ((ws_specs s w)
             \<lparr>ws_path := get_path prefix (router_specs s spec) (IsWebsocket (ws_specs s w))\<rparr>)) xs
   \<and> store_extends s s' \<and> router_specs s' = router_specs s \<and> route_specs s' = route_specs s"
proof (induction xs arbitrary: app s)
  case Nil
  then show ?case by (simp add: store_extends_refl)
next
  case (Cons x xs)
  obtain fn w where x: "x = (fn, w)" by (cases x)
  define v where "v = (ws_specs s w)
             \<lparr>ws_path := get_path prefix (router_specs s spec) (IsWebsocket (ws_specs s w))\<rparr>"
  define s1 where "s1 = s\<lparr>ws_specs := (ws_specs s)(next_ref s := v), next_ref := Suc (next_ref s)\<rparr>"
  define app1 where "app1 = app\<lparr>st_routes := st_routes app @ [WebSocketRoute fn v]\<rparr>"
  have step: "st_mount_websocket prefix spec (fn, w) (app, s) = (app1, s1)"
    by (simp add: st_mount_websocket_eq v_def s1_def app1_def Let_def)
  have ext1: "store_extends s s1" by (simp add: s1_def store_extends_def)
  have b: "\<forall>(fn, w)\<in>set xs. w < next_ref s1" using Cons.prems(1) by (fastforce simp: s1_def)
  have f: "fold (st_mount_websocket prefix spec) xs (app1, s1) = (app', s')"
    using Cons.prems(2) by (simp add: x step)
  have same: "map (\<lambda>(fn, w). WebSocketRoute fn ((ws_specs s1 w)
             \<lparr>ws_path := get_path prefix (router_specs s1 spec) (IsWebsocket (ws_specs s1 w))\<rparr>)) xs
      = map (\<lambda>(fn, w). WebSocketRoute fn ((ws_specs s w)
             \<lparr>ws_path := get_path prefix (router_specs s spec) (IsWebsocket (ws_specs s w))\<rparr>)) xs"
    using Cons.prems(1) by (auto simp: s1_def)
  have IH: "st_routes app' = st_routes app1 @
           map (\<lambda>(fn, w). WebSocketRoute fn ((ws_specs s1 w)
             \<lparr>ws_path := get_path prefix (router_specs s1 spec) (IsWebsocket (ws_specs s1 w))\<rparr>)) xs
   \<and> store_extends s1 s' \<and> router_specs s' = router_specs s1 \<and> route_specs s' = route_specs s1"
    by (rule Cons.IH[OF b f])
  have "store_extends s s'" using IH ext1 by (blast intro: store_extends_trans)
  moreover have "st_routes app' = st_routes app @
           map (\<lambda>(fn, w). WebSocketRoute fn ((ws_specs s w)
             \<lparr>ws_path := get_path prefix (router_specs s spec) (IsWebsocket (ws_specs s w))\<rparr>)) (x # xs)"
    using IH same by (simp add: x app1_def v_def)
  moreover have "router_specs s' = router_specs s \<and> route_specs s' = route_specs s"
    using IH by (simp add: s1_def)
  ultimately show ?case by simp
qed

text \<open>Without the bound on the references, the store is still only extended.\<close>

lemma st_fold_routes_extends:
  "store_extends s (snd (fold (st_mount_route prefix spec) xs (app, s)))"
proof (induction xs arbitrary: app s)
  case Nil
  show ?case by (simp add: store_extends_refl)
next
  case (Cons x xs)
  obtain fn r where x: "x = (fn, r)" by (cases x)
  obtain app1 s1 where step: "st_mount_route prefix spec (fn, r) (app, s) = (app1, s1)"
    by (cases "st_mount_route prefix spec (fn, r) (app, s)")
  have "store_extends s s1"
    using step by (auto simp: st_mount_route_eq Let_def store_extends_def)
  moreover have "store_extends s1 (snd (fold (st_mount_route prefix spec) xs (app1, s1)))"
    by (rule Cons.IH)
  ultimately show ?case by (simp add: x step) (blast intro: store_extends_trans)
qed

lemma st_fold_websockets_extends:
  "store_extends s (snd (fold (st_mount_websocket prefix spec) xs (app, s)))"
proof (induction xs arbitrary: app s)
  case Nil
  show ?case by (simp add: store_extends_refl)
next
  case (Cons x xs)
  obtain fn r where x: "x = (fn, r)" by (cases x)
  obtain app1 s1 where step: "st_mount_websocket prefix spec (fn, r) (app, s) = (app1, s1)"
    by (cases "st_mount_websocket prefix spec (fn, r) (app, s)")
  have "store_extends s s1"
    using step by (auto simp: st_mount_websocket_eq Let_def store_extends_def)
  moreover have "store_extends s1 (snd (fold (st_mount_websocket prefix spec) xs (app1, s1)))"
    by (rule Cons.IH)
  ultimately show ?case by (simp add: x step) (blast intro: store_extends_trans)
qed

lemma starlette_mount_router_extends:
  "store_extends s (snd (snd (starlette_mount_router app router prefix s)))"
proof (cases "inspect_router router")
  case (Inl e)
  then show ?thesis by (simp add: starlette_mount_router_def store_extends_refl)
next
  case (Inr members)
  define s1 where "s1 = snd (replace_router_spec (rm_spec members) s)"
  define spec where "spec = fst (replace_router_spec (rm_spec members) s)"
  define as2 where "as2 = fold (st_mount_route prefix spec) (rm_routes members) (app, s1)"
  define as3 where "as3 = fold (st_mount_websocket prefix spec) (rm_websocket_routes members) as2"
  have e1: "store_extends s s1"
    by (simp add: s1_def replace_router_spec_def new_router_spec_def store_extends_def)
  have e2: "store_extends s1 (snd as2)"
    unfolding as2_def by (rule st_fold_routes_extends)
  have e3: "store_extends (snd as2) (snd as3)"
    unfolding as3_def using st_fold_websockets_extends[of "snd as2" prefix spec _ "fst as2"] by simp
  have "snd (snd (starlette_mount_router app router prefix s)) = snd as3"
    by (simp add: starlette_mount_router_def Inr as3_def as2_def s1_def spec_def split: prod.splits)
  then show ?thesis using e1 e2 e3 by (metis store_extends_trans)
qed


lemma ls_mount_route_eq:
  "ls_mount_route spec (fn, r) (api, s) =
     (api\<lparr>lr_route_handlers := lr_route_handlers api @
          [HTTPRouteHandler fn ((ls_asdict_route (route_specs s r))
             \<lparr>ls_responses := ls_router_responses (router_specs s spec)\<rparr>)]\<rparr>,
      s\<lparr>route_specs := (route_specs s)
           (next_ref s := (route_specs s r)
              \<lparr>ls_responses := merge (ls_router_responses (router_specs s spec))
                                     (ls_responses (route_specs s r))\<rparr>),
        next_ref := Suc (next_ref s)\<rparr>)"
  by (simp add: ls_mount_route_def replace_route_def new_route_def assign_route_def Let_def
      ls_asdict_route_def)

lemma ls_fold_routes:
  "\<forall>(fn, r)\<in>set xs. r < next_ref s \<Longrightarrow>
   fold (ls_mount_route spec) xs (api, s) = (api', s') \<Longrightarrow>
   api' = api\<lparr>lr_route_handlers := lr_route_handlers api @
           map (\<lambda>(fn, r). HTTPRouteHandler fn ((ls_asdict_route (route_specs s r))
             \<lparr>ls_responses := ls_router_responses (router_specs s spec)\<rparr>)) xs\<rparr>
   \<and> router_specs s' = router_specs s \<and> ws_specs s' = ws_specs s"
proof (induction xs arbitrary: api s)
  case Nil
  then show ?case by simp
next
  case (Cons x xs)
  obtain fn r where x: "x = (fn, r)" by (cases x)
  define s1 where "s1 = s\<lparr>route_specs := (route_specs s)
           (next_ref s := (route_specs s r)
              \<lparr>ls_responses := merge (ls_router_responses (router_specs s spec))
                                     (ls_responses (route_specs s r))\<rparr>),
        next_ref := Suc (next_ref s)\<rparr>"
  define api1 where "api1 = api\<lparr>lr_route_handlers := lr_route_handlers api @
          [HTTPRouteHandler fn ((ls_asdict_route (route_specs s r))
             \<lparr>ls_responses := ls_router_responses (router_specs s spec)\<rparr>)]\<rparr>"
  have step: "ls_mount_route spec (fn, r) (api, s) = (api1, s1)"
    by (simp add: ls_mount_route_eq s1_def api1_def)
  have b: "\<forall>(fn, r)\<in>set xs. r < next_ref s1" using Cons.prems(1) by (fastforce simp: s1_def)
  have f: "fold (ls_mount_route spec) xs (api1, s1) = (api', s')"
    using Cons.prems(2) by (simp add: x step)
  have same: "map (\<lambda>(fn, r). HTTPRouteHandler fn ((ls_asdict_route (route_specs s1 r))
             \<lparr>ls_responses := ls_router_responses (router_specs s1 spec)\<rparr>)) xs
      = map (\<lambda>(fn, r). HTTPRouteHandler fn ((ls_asdict_route (route_specs s r))
             \<lparr>ls_responses := ls_router_responses (router_specs s spec)\<rparr>)) xs"
    using Cons.prems(1) by (auto simp: s1_def)
  have IH: "api' = api1\<lparr>lr_route_handlers := lr_route_handlers api1 @
           map (\<lambda>(fn, r). HTTPRouteHandler fn ((ls_asdict_route (route_specs s1 r))
             \<lparr>ls_responses := ls_router_responses (router_specs s1 spec)\<rparr>)) xs\<rparr>
   \<and> router_specs s' = router_specs s1 \<and> ws_specs s' = ws_specs s1"
    by (rule Cons.IH[OF b f])
  show ?case using IH same by (simp add: x api1_def s1_def)
qed

lemma ls_fold_routes_extends:
  "store_extends s (snd (fold (ls_mount_route spec) xs (api, s)))"
proof (induction xs arbitrary: api s)
  case Nil
  show ?case by (simp add: store_extends_refl)
next
  case (Cons x xs)
  obtain fn r where x: "x = (fn, r)" by (cases x)
  obtain api1 s1 where step: "ls_mount_route spec (fn, r) (api, s) = (api1, s1)"
    by (cases "ls_mount_route spec (fn, r) (api, s)")
  have "store_extends s s1"
    using step by (auto simp: ls_mount_route_eq store_extends_def)
  moreover have "store_extends s1 (snd (fold (ls_mount_route spec) xs (api1, s1)))"
    by (rule Cons.IH)
  ultimately show ?case by (simp add: x step) (blast intro: store_extends_trans)
qed

lemma ls_fold_websockets:
  "fold (ls_mount_websocket s) xs api =
     api\<lparr>lr_route_handlers := lr_route_handlers api @
        map (\<lambda>(fn, w). WebsocketRouteHandler fn (ws_path (ws_specs s w)) (ws_name (ws_specs s w))) xs\<rparr>"
  by (induction xs arbitrary: api) (auto simp: ls_mount_websocket_def)

lemma litestar_mount_router_unfold:
  assumes dec: "router_spec_attr router = Some a"
  shows "litestar_mount_router list_of app router prefix responses tags include_in_schema s =
     (let v = ls_mounted_spec list_of prefix responses tags include_in_schema (router_specs s a);
          s1 = s\<lparr>router_specs := (router_specs s)(next_ref s := v), next_ref := Suc (next_ref s)\<rparr>;
          api0 = \<lparr>lr_path = ls_prefix v, lr_include_in_schema = ls_include_in_schema v,
                  lr_tags = ls_router_tags v, lr_options = asdict_options (ls_router_options v),
                  lr_route_handlers = []\<rparr>;
          (api, s2) = fold (ls_mount_route (next_ref s)) (find_routes_from_router router) (api0, s1)
      in (Inr (),
          app\<lparr>ls_registered := ls_registered app @
            [fold (ls_mount_websocket s2) (find_websocket_routes_from_router router) api]\<rparr>,
          s2))"
proof -
  have upd: "\<And>f g. s\<lparr>next_ref := f, router_specs := g\<rparr> = s\<lparr>router_specs := g, next_ref := f\<rparr>"
    by (cases s) simp
  show ?thesis
    using dec
    by (cases "router_specs s a")
       (simp add: litestar_mount_router_def inspect_router_def find_router_spec_def
         replace_router_spec_def new_router_spec_def assign_router_spec_def ls_mounted_spec_def
         ls_asdict_router_def Let_def upd)
qed

lemma litestar_mount_router_eq:
  assumes dec: "router_spec_attr router = Some a"
    and alloc: "\<forall>(fn, r)\<in>set (find_routes_from_router router). r < next_ref s"
  shows "fst (litestar_mount_router list_of app router prefix responses tags include_in_schema s)
           = Inr ()
     \<and> fst (snd (litestar_mount_router list_of app router prefix responses tags include_in_schema s))
           = app\<lparr>ls_registered := ls_registered app @
               [\<lparr>lr_path = (if prefix \<noteq> []
                            then rstrip ''/'' prefix @ ''/'' @ lstrip ''/'' (ls_prefix (router_specs s a))
                            else ls_prefix (router_specs s a)),
                 lr_include_in_schema = (if \<not> Option.is_none include_in_schema then include_in_schema
                                         else ls_include_in_schema (router_specs s a)),
                 lr_tags = concat_unique list_of tags (ls_router_tags (router_specs s a)),
                 lr_options = asdict_options (ls_router_options (router_specs s a)),
                 lr_route_handlers =
                   map (\<lambda>(fn, r). HTTPRouteHandler fn ((ls_asdict_route (route_specs s r))
                          \<lparr>ls_responses := merge responses (ls_router_responses (router_specs s a))\<rparr>))
                     (find_routes_from_router router) @
                   map (\<lambda>(fn, w). WebsocketRouteHandler fn (ws_path (ws_specs s w))
                                     (ws_name (ws_specs s w)))
                     (find_websocket_routes_from_router router)\<rparr>]\<rparr>"
proof -
  define v where "v = ls_mounted_spec list_of prefix responses tags include_in_schema (router_specs s a)"
  define s1 where "s1 = s\<lparr>router_specs := (router_specs s)(next_ref s := v),
                          next_ref := Suc (next_ref s)\<rparr>"
  define api0 :: "'a LitestarRouter" where "api0 = \<lparr>lr_path = ls_prefix v,
         lr_include_in_schema = ls_include_in_schema v,
         lr_tags = ls_router_tags v,
         lr_options = asdict_options (ls_router_options v),
         lr_route_handlers = []\<rparr>"
  obtain api s2 where f: "fold (ls_mount_route (next_ref s)) (find_routes_from_router router)
       (api0, s1) = (api, s2)"
    by (cases "fold (ls_mount_route (next_ref s)) (find_routes_from_router router) (api0, s1)")
  have b: "\<forall>(fn, r)\<in>set (find_routes_from_router router). r < next_ref s1"
    using alloc by (fastforce simp: s1_def)
  have r: "api = api0\<lparr>lr_route_handlers := lr_route_handlers api0 @
           map (\<lambda>(fn, r). HTTPRouteHandler fn ((ls_asdict_route (route_specs s1 r))
             \<lparr>ls_responses := ls_router_responses (router_specs s1 (next_ref s))\<rparr>))
             (find_routes_from_router router)\<rparr>
       \<and> router_specs s2 = router_specs s1 \<and> ws_specs s2 = ws_specs s1"
    by (rule ls_fold_routes[OF b f])
  have same: "map (\<lambda>(fn, r). HTTPRouteHandler fn ((ls_asdict_route (route_specs s1 r))
             \<lparr>ls_responses := ls_router_responses (router_specs s1 (next_ref s))\<rparr>))
             (find_routes_from_router router)
        = map (\<lambda>(fn, r). HTTPRouteHandler fn ((ls_asdict_route (route_specs s r))
                          \<lparr>ls_responses := merge responses (ls_router_responses (router_specs s a))\<rparr>))
                     (find_routes_from_router router)"
    by (simp add: s1_def v_def ls_mounted_spec_def)
  have m: "litestar_mount_router list_of app router prefix responses tags include_in_schema s =
       (Inr (),
        app\<lparr>ls_registered := ls_registered app @
          [fold (ls_mount_websocket s2) (find_websocket_routes_from_router router) api]\<rparr>,
        s2)"
    using f unfolding litestar_mount_router_unfold[OF dec]
    by (simp add: Let_def s1_def v_def api0_def)
  show ?thesis
    using r same
    by (simp add: m ls_fold_websockets api0_def s1_def v_def ls_mounted_spec_def)
qed

lemma litestar_mount_router_extends:
  "store_extends s
     (snd (snd (litestar_mount_router list_of app router prefix responses tags include_in_schema s)))"
proof (cases "router_spec_attr router")
  case None
  then show ?thesis
    by (simp add: litestar_mount_router_def inspect_router_def find_router_spec_def
        store_extends_refl)
next
  case (Some a)
  define v where "v = ls_mounted_spec list_of prefix responses tags include_in_schema (router_specs s a)"
  define s1 where "s1 = s\<lparr>router_specs := (router_specs s)(next_ref s := v),
                          next_ref := Suc (next_ref s)\<rparr>"
  define api0 :: "'a LitestarRouter" where "api0 = \<lparr>lr_path = ls_prefix v,
         lr_include_in_schema = ls_include_in_schema v,
         lr_tags = ls_router_tags v,
         lr_options = asdict_options (ls_router_options v),
         lr_route_handlers = []\<rparr>"
  obtain api s2 where f: "fold (ls_mount_route (next_ref s)) (find_routes_from_router router)
       (api0, s1) = (api, s2)"
    by (cases "fold (ls_mount_route (next_ref s)) (find_routes_from_router router) (api0, s1)")
  have m: "snd (snd (litestar_mount_router list_of app router prefix responses tags include_in_schema s)) = s2"
    using f unfolding litestar_mount_router_unfold[OF Some]
    by (simp add: Let_def s1_def v_def api0_def)
  have e1: "store_extends s s1" by (simp add: s1_def store_extends_def)
  have e2: "store_extends s1 s2"
    using ls_fold_routes_extends[of s1 "next_ref s" "find_routes_from_router router" api0] f by simp
  show ?thesis using e1 e2 by (simp add: m) (blast intro: store_extends_trans)
qed


section \<open>The sole error: a router that was never decorated\<close>

text \<open>
  C1. A router that carries no router specification (its class was never decorated with
  \<^verbatim>\<open>ROUTER\<close>) makes \<^verbatim>\<open>inspect_router\<close> raise \<^verbatim>\<open>TypeError\<close>, in the module of each host, and so
  makes each of the three \<^verbatim>\<open>mount_router\<close> raise it; nothing is returned by default.
\<close>

theorem undecorated_router_raises:
  assumes "router_spec_attr r1 = None" and "router_spec_attr r2 = None"
    and "router_spec_attr r3 = None"
  shows "inspect_router r1 =
           Inl (TypeError ''router classes must be decorated with @router decorator'')
       \<and> fastapi_inspect_router r3 =
           Inl (TypeError ''router classes must be decorated with @router decorator'')
       \<and> fst (starlette_mount_router app1 r1 prefix s1) =
           Inl (TypeError ''router classes must be decorated with @router decorator'')
       \<and> fst (litestar_mount_router list_of app2 r2 prefix responses tags include_in_schema s2) =
           Inl (TypeError ''router classes must be decorated with @router decorator'')
       \<and> fst (fastapi_mount_router app3 r3 prefix tags' responses' deprecated include_in_schema'
                dependencies default_response_class s3) =
           Inl (TypeError ''router classes must be decorated with @router decorator'')"
  using assms
  by (simp add: inspect_router_def fastapi_inspect_router_def find_router_spec_def
      starlette_mount_router_def litestar_mount_router_def fastapi_mount_router_def)

lemma st_example_class_undecorated: "router_spec_attr (fst st_example_class) = None"
  by (simp add: st_example_class_def new_route_def new_websocket_def Let_def)

lemma ls_example_class_undecorated: "router_spec_attr (fst ls_example_class) = None"
  by (simp add: ls_example_class_def new_route_def new_websocket_def Let_def)

lemma fa_example_class_undecorated: "router_spec_attr (fst (fa_example_class h)) = None"
  by (simp add: fa_example_class_def new_route_def new_websocket_def Let_def)

theorem undecorated_router_raises_witness:
  "router_spec_attr (fst st_example_class) = None
   \<and> router_spec_attr (fst ls_example_class) = None
   \<and> router_spec_attr (fst (fa_example_class test_hook)) = None
   \<and> inspect_router (fst st_example_class) =
        Inl (TypeError ''router classes must be decorated with @router decorator'')
   \<and> fastapi_inspect_router (fst (fa_example_class test_hook)) =
        Inl (TypeError ''router classes must be decorated with @router decorator'')
   \<and> fst (starlette_mount_router \<lparr>st_routes = []\<rparr> (fst st_example_class) ''/api''
             (snd st_example_class)) =
        Inl (TypeError ''router classes must be decorated with @router decorator'')
   \<and> fst (litestar_mount_router (\<lambda>S. []) \<lparr>ls_registered = []\<rparr> (fst ls_example_class) ''/api''
             None None None (snd ls_example_class)) =
        Inl (TypeError ''router classes must be decorated with @router decorator'')
   \<and> fst (fastapi_mount_router \<lparr>fa_included = []\<rparr> (fst (fa_example_class test_hook)) ''/api''
             None None None True None (PyOpaque 0) (snd (fa_example_class test_hook))) =
        Inl (TypeError ''router classes must be decorated with @router decorator'')"
  using undecorated_router_raises [OF st_example_class_undecorated ls_example_class_undecorated
      fa_example_class_undecorated [of test_hook],
      of "\<lparr>st_routes = []\<rparr>" "''/api''" "snd st_example_class"
         "\<lambda>S. []" "\<lparr>ls_registered = []\<rparr>" None None None "snd ls_example_class"
         "\<lparr>fa_included = []\<rparr>" None None None True None "PyOpaque 0"
         "snd (fa_example_class test_hook)"]
    st_example_class_undecorated ls_example_class_undecorated
    fa_example_class_undecorated [of test_hook]
  by simp

text \<open>
  C10. \<^verbatim>\<open>mount_router\<close> raises for an undecorated router before it registers anything:
  the host application (and the store) are left as they were before the call.
\<close>

theorem undecorated_mount_leaves_host_unchanged:
  assumes "router_spec_attr r1 = None" and "router_spec_attr r2 = None"
    and "router_spec_attr r3 = None"
  shows "starlette_mount_router app1 r1 prefix s1 =
           (Inl (TypeError ''router classes must be decorated with @router decorator''), app1, s1)
       \<and> litestar_mount_router list_of app2 r2 prefix responses tags include_in_schema s2 =
           (Inl (TypeError ''router classes must be decorated with @router decorator''), app2, s2)
       \<and> fastapi_mount_router app3 r3 prefix tags' responses' deprecated include_in_schema'
                dependencies default_response_class s3 =
           (Inl (TypeError ''router classes must be decorated with @router decorator''), app3, s3)"
  using assms
  by (simp add: inspect_router_def fastapi_inspect_router_def find_router_spec_def
      starlette_mount_router_def litestar_mount_router_def fastapi_mount_router_def)

theorem undecorated_mount_leaves_host_unchanged_witness:
  "router_spec_attr (fst st_example_class) = None
   \<and> router_spec_attr (fst ls_example_class) = None
   \<and> router_spec_attr (fst (fa_example_class test_hook)) = None
   \<and> starlette_mount_router \<lparr>st_routes = [Route (function_object 9 ()) (st_GET ''/'' None None None None)]\<rparr>
        (fst st_example_class) ''/api'' (snd st_example_class) =
        (Inl (TypeError ''router classes must be decorated with @router decorator''),
         \<lparr>st_routes = [Route (function_object 9 ()) (st_GET ''/'' None None None None)]\<rparr>,
         snd st_example_class)
   \<and> litestar_mount_router (\<lambda>S. []) \<lparr>ls_registered = []\<rparr> (fst ls_example_class) ''/api''
             None None None (snd ls_example_class) =
        (Inl (TypeError ''router classes must be decorated with @router decorator''),
         \<lparr>ls_registered = []\<rparr>, snd ls_example_class)
   \<and> fastapi_mount_router \<lparr>fa_included = []\<rparr> (fst (fa_example_class test_hook)) ''/api''
             None None None True None (PyOpaque 0) (snd (fa_example_class test_hook)) =
        (Inl (TypeError ''router classes must be decorated with @router decorator''),
         \<lparr>fa_included = []\<rparr>, snd (fa_example_class test_hook))"
  using undecorated_mount_leaves_host_unchanged [OF st_example_class_undecorated
      ls_example_class_undecorated fa_example_class_undecorated [of test_hook],
      of "\<lparr>st_routes = [Route (function_object 9 ()) (st_GET ''/'' None None None None)]\<rparr>"
         "''/api''" "snd st_example_class"
         "\<lambda>S. []" "\<lparr>ls_registered = []\<rparr>" None None None "snd ls_example_class"
         "\<lparr>fa_included = []\<rparr>" None None None True None "PyOpaque 0"
         "snd (fa_example_class test_hook)"]
    st_example_class_undecorated ls_example_class_undecorated
    fa_example_class_undecorated [of test_hook]
  by simp


section \<open>Decoration and discovery\<close>

text \<open>
  C7, as the code has it. Applying an HTTP-method decorator \<open>d\<close> to a function \<open>f\<close> returns
  \<open>f\<close>: the same identity and behaviour and the same other attributes, with the
  specification \<open>d\<close> attached as \<^verbatim>\<open>__route_spec__\<close>; the reference denotes the object that the
  constructor built. The method field of that object is the method of the decorator
  class when the caller gives none, and the caller's otherwise. The decorator takes and
  returns no host application, so nothing is registered. The specification is an
  instance of a dataclass that is not frozen: an assignment to a field of the attached
  object \<open>d\<close> changes that field and leaves the object attached.
\<close>

theorem decorator_attaches_spec_to_same_function:
  "ROUTE_call d f = f\<lparr>route_spec_attr := Some d\<rparr>
   \<and> ident (ROUTE_call d f) = ident f
   \<and> call (ROUTE_call d f) = call f
   \<and> ws_route_spec_attr (ROUTE_call d f) = ws_route_spec_attr f
   \<and> router_lifespan_attr (ROUTE_call d f) = router_lifespan_attr f
   \<and> route_spec_attr (ROUTE_call d f) = Some d
   \<and> route_specs (snd (new_route v s)) (fst (new_route v s)) = v
   \<and> route_specs (assign_route d g s) d = g (route_specs s d)
   \<and> st_methods (st_GET p i n m None) = [''GET'']
   \<and> st_methods (st_POST p i n m None) = [''POST'']
   \<and> st_methods (st_PUT p i n m None) = [''PUT'']
   \<and> st_methods (st_PATCH p i n m None) = [''PATCH'']
   \<and> st_methods (st_DELETE p i n m None) = [''DELETE'']
   \<and> st_methods (st_GET p i n m (Some ms)) = ms
   \<and> fa_methods (fa_GET p c opts None) = [''GET'']
   \<and> fa_methods (fa_POST p c opts None) = [''POST'']
   \<and> fa_methods (fa_PUT p c opts None) = [''PUT'']
   \<and> fa_methods (fa_PATCH p c opts None) = [''PATCH'']
   \<and> fa_methods (fa_DELETE p c opts None) = [''DELETE'']
   \<and> fa_methods (fa_GET p c opts (Some ms)) = ms
   \<and> ls_http_method (ls_GET q None rsp tgs opts') = PyStr ''GET''
   \<and> ls_http_method (ls_POST q None rsp tgs opts') = PyStr ''POST''
   \<and> ls_http_method (ls_PUT q None rsp tgs opts') = PyStr ''PUT''
   \<and> ls_http_method (ls_PATCH q None rsp tgs opts') = PyStr ''PATCH''
   \<and> ls_http_method (ls_DELETE q None rsp tgs opts') = PyStr ''DELETE''
   \<and> ls_http_method (ls_GET q (Some hm) rsp tgs opts') = hm"
  by (simp add: ROUTE_call_def set_route_spec_def new_route_def assign_route_def
      st_GET_def st_POST_def st_PUT_def st_PATCH_def st_DELETE_def st_ROUTE_init_def
      fa_GET_def fa_POST_def fa_PUT_def fa_PATCH_def fa_DELETE_def fa_ROUTE_init_def
      ls_GET_def ls_POST_def ls_PUT_def ls_PATCH_def ls_DELETE_def ls_ROUTE_init_def)

lemma find_routes_decorated:
  assumes "list_all (\<lambda>(name, fn, d). route_spec_attr fn = None) defs"
  shows "find_routes_from_router
           (router\<lparr>getmembers := map (\<lambda>(name, fn, d).
               (name, case d of None \<Rightarrow> fn | Some d \<Rightarrow> ROUTE_call d fn)) defs\<rparr>)
         = concat (map (\<lambda>(name, fn, d).
               case d of None \<Rightarrow> [] | Some d \<Rightarrow> [(ROUTE_call d fn, d)]) defs)"
  using assms
  by (induction defs)
     (auto simp: find_routes_from_router_def ROUTE_call_def set_route_spec_def split: option.splits)

lemma length_decorated:
  "length (concat (map (\<lambda>(name, fn, d).
               case d of None \<Rightarrow> [] | Some d \<Rightarrow> [(ROUTE_call d fn, d)]) defs))
   = length (filter (\<lambda>(name, fn, d). d \<noteq> None) defs)"
  by (induction defs) (auto split: option.splits)

lemma idents_decorated:
  "map (\<lambda>(m, d). ident m) (concat (map (\<lambda>(name, fn, d).
               case d of None \<Rightarrow> [] | Some d \<Rightarrow> [(ROUTE_call d fn, d)]) defs))
   = map (\<lambda>(name, fn, d). ident fn) (filter (\<lambda>(name, fn, d). d \<noteq> None) defs)"
  by (induction defs) (auto simp: ROUTE_call_def set_route_spec_def split: option.splits)

text \<open>
  C2. Let the members of a class be given by \<open>defs\<close>: each a name, a function that carries
  no route specification yet, and at most one HTTP-method decorator applied to it; let
  the functions be different objects. Once the class is decorated with \<^verbatim>\<open>ROUTER\<close>,
  \<^verbatim>\<open>inspect_router\<close> (of either kind) returns the router specification that \<^verbatim>\<open>ROUTER\<close>
  attached and a list of routes with exactly one entry for each decorated function, in
  the order of the members: the function as the decorator returned it, paired with the
  specification object of that decorator. Its length is the number of decorated
  functions.
\<close>

theorem inspect_router_one_entry_per_decorated_method:
  assumes members: "getmembers cls = map (\<lambda>(name, fn, d).
               (name, case d of None \<Rightarrow> fn | Some d \<Rightarrow> ROUTE_call d fn)) defs"
    and fresh: "list_all (\<lambda>(name, fn, d). route_spec_attr fn = None) defs"
    and different: "distinct (map (\<lambda>(name, fn, d). ident fn) defs)"
  shows "\<exists>rm rm'. inspect_router (fst (ROUTER spec cls s)) = Inr rm
          \<and> fastapi_inspect_router (fst (ROUTER spec cls s)) = Inr rm'
          \<and> rm_spec rm' = rm_spec rm \<and> rm_routes rm' = rm_routes rm
          \<and> router_specs (snd (ROUTER spec cls s)) (rm_spec rm) = spec
          \<and> rm_routes rm = concat (map (\<lambda>(name, fn, d).
               case d of None \<Rightarrow> [] | Some d \<Rightarrow> [(ROUTE_call d fn, d)]) defs)
          \<and> length (rm_routes rm) = length (filter (\<lambda>(name, fn, d). d \<noteq> None) defs)
          \<and> distinct (map (\<lambda>(m, d). ident m) (rm_routes rm))"
proof -
  have cls: "cls = cls\<lparr>getmembers := map (\<lambda>(name, fn, d).
               (name, case d of None \<Rightarrow> fn | Some d \<Rightarrow> ROUTE_call d fn)) defs\<rparr>"
    using members by simp
  have r: "find_routes_from_router (fst (ROUTER spec cls s)) = find_routes_from_router cls"
    by (simp add: ROUTER_def new_router_spec_def set_router_spec_def find_routes_from_router_def)
  have routes: "find_routes_from_router cls = concat (map (\<lambda>(name, fn, d).
               case d of None \<Rightarrow> [] | Some d \<Rightarrow> [(ROUTE_call d fn, d)]) defs)"
    using find_routes_decorated[OF fresh, of cls] cls by simp
  have d: "distinct (map (\<lambda>(name, fn, d). ident fn) (filter (\<lambda>(name, fn, d). d \<noteq> None) defs))"
    using different by (simp add: distinct_map_filter)
  show ?thesis
    using routes r d
    by (simp add: inspect_router_def fastapi_inspect_router_def find_router_spec_def
        ROUTER_def new_router_spec_def set_router_spec_def length_decorated idents_decorated)
qed

theorem inspect_router_one_entry_per_decorated_method_witness:
  "getmembers (fst st_example_class) = map (\<lambda>(name, fn, d).
        (name, case d of None \<Rightarrow> fn | Some d \<Rightarrow> ROUTE_call d fn))
      [(''fake_get_handler'', function_object 1 (), Some 0),
       (''fake_post_handler'', function_object 2 (), Some 1),
       (''msg'', function_object 3 (), None),
       (''notify'', WEBSOCKET_call 2 (function_object 4 ()), None)]
   \<and> (\<exists>rm rm'. inspect_router (fst st_example) = Inr rm
          \<and> fastapi_inspect_router (fst st_example) = Inr rm'
          \<and> rm_spec rm' = rm_spec rm \<and> rm_routes rm' = rm_routes rm
          \<and> router_specs (snd st_example) (rm_spec rm) =
               \<lparr>st_prefix = ''/api'', st_router_middleware = Some [PyOpaque 1]\<rparr>
          \<and> rm_routes rm = [(ROUTE_call 0 (function_object 1 ()), 0),
                             (ROUTE_call 1 (function_object 2 ()), 1)]
          \<and> length (rm_routes rm) = 2
          \<and> distinct (map (\<lambda>(m, d). ident m) (rm_routes rm)))"
proof -
  have m: "getmembers (fst st_example_class) = map (\<lambda>(name, fn, d).
        (name, case d of None \<Rightarrow> fn | Some d \<Rightarrow> ROUTE_call d fn))
      [(''fake_get_handler'', function_object 1 (), Some 0),
       (''fake_post_handler'', function_object 2 (), Some 1),
       (''msg'', function_object 3 (), None),
       (''notify'', WEBSOCKET_call 2 (function_object 4 ()), None)]"
    by (simp add: st_example_class_def new_route_def new_websocket_def empty_store_def Let_def
        numeral_2_eq_2)
  have f: "list_all (\<lambda>(name, fn, d). route_spec_attr fn = None)
      [(''fake_get_handler'', function_object 1 (), Some (0::nat)),
       (''fake_post_handler'', function_object 2 (), Some 1),
       (''msg'', function_object 3 (), None),
       (''notify'', WEBSOCKET_call 2 (function_object 4 ()), None)]"
    by (simp add: function_object_def WEBSOCKET_call_def set_ws_route_spec_def)
  have d: "distinct (map (\<lambda>(name, fn, d). ident fn)
      [(''fake_get_handler'', function_object 1 (), Some (0::nat)),
       (''fake_post_handler'', function_object 2 (), Some 1),
       (''msg'', function_object 3 (), None),
       (''notify'', WEBSOCKET_call 2 (function_object 4 ()), None)])"
    by (simp add: function_object_def WEBSOCKET_call_def set_ws_route_spec_def)
  have e: "st_example = ROUTER \<lparr>st_prefix = ''/api'', st_router_middleware = Some [PyOpaque 1]\<rparr>
             (fst st_example_class) (snd st_example_class)"
    by (simp add: st_example_def case_prod_unfold)
  from inspect_router_one_entry_per_decorated_method [OF m f d,
        of "\<lparr>st_prefix = ''/api'', st_router_middleware = Some [PyOpaque 1]\<rparr>"
           "snd st_example_class"]
  obtain rm rm' where "inspect_router (fst st_example) = Inr rm"
    and "fastapi_inspect_router (fst st_example) = Inr rm'"
    and "rm_spec rm' = rm_spec rm" and "rm_routes rm' = rm_routes rm"
    and "router_specs (snd st_example) (rm_spec rm) =
               \<lparr>st_prefix = ''/api'', st_router_middleware = Some [PyOpaque 1]\<rparr>"
    and "rm_routes rm = [(ROUTE_call 0 (function_object 1 ()), 0),
                             (ROUTE_call 1 (function_object 2 ()), 1)]"
    and "length (rm_routes rm) = 2"
    and "distinct (map (\<lambda>(m, d). ident m) (rm_routes rm))"
    unfolding e by auto
  with m show ?thesis by blast
qed


section \<open>Path composition\<close>





lemma lstrip_kept: "xs \<noteq> [] \<Longrightarrow> hd xs \<notin> set chars \<Longrightarrow> lstrip chars xs = xs"
  by (cases xs) (simp_all add: lstrip_def)







lemma ls_fold_routes_fields:
  "fold (ls_mount_route spec) xs (api, s) = (api', s') \<Longrightarrow>
     lr_path api' = lr_path api \<and> lr_include_in_schema api' = lr_include_in_schema api \<and>
     lr_tags api' = lr_tags api \<and> lr_options api' = lr_options api"
proof (induction xs arbitrary: api s)
  case Nil
  then show ?case by simp
next
  case (Cons x xs)
  obtain fn r where x: "x = (fn, r)" by (cases x)
  obtain api1 s1 where step: "ls_mount_route spec (fn, r) (api, s) = (api1, s1)"
    by (cases "ls_mount_route spec (fn, r) (api, s)")
  have "fold (ls_mount_route spec) xs (api1, s1) = (api', s')"
    using Cons.prems by (simp add: x step)
  from Cons.IH[OF this] step show ?case
    by (auto simp: ls_mount_route_eq)
qed

lemma litestar_mount_router_fields:
  assumes dec: "router_spec_attr router = Some a"
  shows "\<exists>api. fst (snd (litestar_mount_router list_of app router prefix responses tags
                    include_in_schema s)) = app\<lparr>ls_registered := ls_registered app @ [api]\<rparr>
     \<and> lr_path api = (if prefix \<noteq> []
                        then rstrip ''/'' prefix @ ''/'' @ lstrip ''/'' (ls_prefix (router_specs s a))
                        else ls_prefix (router_specs s a))
     \<and> lr_include_in_schema api = (if \<not> Option.is_none include_in_schema then include_in_schema
                                     else ls_include_in_schema (router_specs s a))
     \<and> lr_tags api = concat_unique list_of tags (ls_router_tags (router_specs s a))
     \<and> lr_options api = asdict_options (ls_router_options (router_specs s a))"
proof -
  define v where "v = ls_mounted_spec list_of prefix responses tags include_in_schema (router_specs s a)"
  define s1 where "s1 = s\<lparr>router_specs := (router_specs s)(next_ref s := v),
                          next_ref := Suc (next_ref s)\<rparr>"
  define api0 :: "'a LitestarRouter" where "api0 = \<lparr>lr_path = ls_prefix v,
         lr_include_in_schema = ls_include_in_schema v,
         lr_tags = ls_router_tags v,
         lr_options = asdict_options (ls_router_options v),
         lr_route_handlers = []\<rparr>"
  obtain api s2 where f: "fold (ls_mount_route (next_ref s)) (find_routes_from_router router)
       (api0, s1) = (api, s2)"
    by (cases "fold (ls_mount_route (next_ref s)) (find_routes_from_router router) (api0, s1)")
  have m: "fst (snd (litestar_mount_router list_of app router prefix responses tags include_in_schema s)) =
        app\<lparr>ls_registered := ls_registered app @
          [fold (ls_mount_websocket s2) (find_websocket_routes_from_router router) api]\<rparr>"
    using f unfolding litestar_mount_router_unfold[OF dec]
    by (simp add: Let_def s1_def v_def api0_def)
  show ?thesis
    using ls_fold_routes_fields[OF f]
    by (intro exI[of _ "fold (ls_mount_websocket s2) (find_websocket_routes_from_router router) api"])
       (simp add: m ls_fold_websockets api0_def v_def ls_mounted_spec_def)
qed

section \<open>Mounting on Starlette\<close>

lemma allocated_routes:
  "router_allocated router s \<Longrightarrow> \<forall>(fn, r)\<in>set (find_routes_from_router router). r < next_ref s"
  unfolding router_allocated_def find_routes_from_router_def list_all_iff
  by (fastforce split: option.splits)

lemma allocated_websocket_routes:
  "router_allocated router s \<Longrightarrow>
     \<forall>(fn, w)\<in>set (find_websocket_routes_from_router router). w < next_ref s"
  unfolding router_allocated_def find_websocket_routes_from_router_def list_all_iff
  by (fastforce split: option.splits)

lemma allocated_router_spec:
  "router_allocated router s \<Longrightarrow> router_spec_attr router = Some a \<Longrightarrow> a < next_ref s"
  by (simp add: router_allocated_def)

lemma starlette_mount_router_eq:
  assumes dec: "router_spec_attr router = Some a"
    and alloc: "router_allocated router s"
  shows "fst (starlette_mount_router app router prefix s) = Inr ()
     \<and> st_routes (fst (snd (starlette_mount_router app router prefix s))) =
         st_routes app @
         map (\<lambda>(fn, r). Route fn ((route_specs s r)
               \<lparr>st_middleware := concat_seq (st_router_middleware (router_specs s a))
                                            (st_middleware (route_specs s r)),
                st_path := get_path prefix (router_specs s a) (IsRoute (route_specs s r))\<rparr>))
           (find_routes_from_router router) @
         map (\<lambda>(fn, w). WebSocketRoute fn ((ws_specs s w)
               \<lparr>ws_path := get_path prefix (router_specs s a) (IsWebsocket (ws_specs s w))\<rparr>))
           (find_websocket_routes_from_router router)"
proof -
  define s1 where "s1 = s\<lparr>router_specs := (router_specs s)(next_ref s := router_specs s a),
                          next_ref := Suc (next_ref s)\<rparr>"
  obtain app2 s2 where f2: "fold (st_mount_route prefix (next_ref s))
      (find_routes_from_router router) (app, s1) = (app2, s2)"
    by (cases "fold (st_mount_route prefix (next_ref s)) (find_routes_from_router router) (app, s1)")
  obtain app3 s3 where f3: "fold (st_mount_websocket prefix (next_ref s))
      (find_websocket_routes_from_router router) (app2, s2) = (app3, s3)"
    by (cases "fold (st_mount_websocket prefix (next_ref s))
      (find_websocket_routes_from_router router) (app2, s2)")
  have m: "starlette_mount_router app router prefix s = (Inr (), app3, s3)"
    using dec f2 f3
    by (simp add: starlette_mount_router_def inspect_router_def find_router_spec_def
        replace_router_spec_def new_router_spec_def s1_def)
  have b1: "\<forall>(fn, r)\<in>set (find_routes_from_router router). r < next_ref s1"
    using allocated_routes[OF alloc] by (fastforce simp: s1_def)
  have r2: "st_routes app2 = st_routes app @
           map (\<lambda>(fn, r). Route fn ((route_specs s1 r)
             \<lparr>st_middleware := concat_seq (st_router_middleware (router_specs s1 (next_ref s)))
                                          (st_middleware (route_specs s1 r)),
              st_path := get_path prefix (router_specs s1 (next_ref s)) (IsRoute (route_specs s1 r))\<rparr>))
             (find_routes_from_router router)
   \<and> store_extends s1 s2 \<and> router_specs s2 = router_specs s1 \<and> ws_specs s2 = ws_specs s1"
    by (rule st_fold_routes[OF b1 f2])
  have b2: "\<forall>(fn, w)\<in>set (find_websocket_routes_from_router router). w < next_ref s2"
  proof -
    have "next_ref s \<le> next_ref s2" using r2 by (simp add: store_extends_def s1_def)
    then show ?thesis using allocated_websocket_routes[OF alloc] by fastforce
  qed
  have r3: "st_routes app3 = st_routes app2 @
           map (\<lambda>(fn, w). WebSocketRoute fn ((ws_specs s2 w)
             \<lparr>ws_path := get_path prefix (router_specs s2 (next_ref s)) (IsWebsocket (ws_specs s2 w))\<rparr>))
             (find_websocket_routes_from_router router)
   \<and> store_extends s2 s3 \<and> router_specs s3 = router_specs s2 \<and> route_specs s3 = route_specs s2"
    by (rule st_fold_websockets[OF b2 f3])
  show ?thesis
    using r2 r3 by (simp add: m s1_def)
qed

text \<open>
  C6. \<^verbatim>\<open>mount_router\<close> of \<^verbatim>\<open>starlette.py\<close> registers, for the \<open>i\<close>-th discovered route, a
  \<^verbatim>\<open>Route\<close> for its function whose middleware is the router-level sequence followed by the
  route-level sequence, each in full and in order, with nothing dropped; it is what
  \<^verbatim>\<open>concat\<close> returns for the two.
\<close>

theorem starlette_mount_router_concatenates_middleware:
  assumes "router_spec_attr router = Some a" and "router_allocated router s"
    and "st_router_middleware (router_specs s a) = Some router_level"
    and "i < length (find_routes_from_router router)"
    and "find_routes_from_router router ! i = (fn, r)"
    and "st_middleware (route_specs s r) = Some route_level"
  shows "(\<exists>v. st_routes (fst (snd (starlette_mount_router app router prefix s)))
                 ! (length (st_routes app) + i) = Route fn v
              \<and> st_middleware v = Some (router_level @ route_level))
       \<and> concat_seq (Some router_level) (Some route_level) = Some (router_level @ route_level)"
proof -
  have "st_routes (fst (snd (starlette_mount_router app router prefix s)))
          ! (length (st_routes app) + i)
        = Route fn ((route_specs s r)
               \<lparr>st_middleware := concat_seq (st_router_middleware (router_specs s a))
                                            (st_middleware (route_specs s r)),
                st_path := get_path prefix (router_specs s a) (IsRoute (route_specs s r))\<rparr>)"
    using starlette_mount_router_eq[OF assms(1,2), of app prefix] assms(4,5)
    by (simp add: nth_append)
  then show ?thesis using assms(3,6) by (simp add: concat_seq_def)
qed

lemma st_example_unfold:
  "st_example = ROUTER \<lparr>st_prefix = ''/api'', st_router_middleware = Some [PyOpaque 1]\<rparr>
             (fst st_example_class) (snd st_example_class)"
  by (simp add: st_example_def case_prod_unfold)

lemma st_example_class_store:
  "snd st_example_class =
     \<lparr>router_specs = (\<lambda>_. \<lparr>st_prefix = [], st_router_middleware = None\<rparr>),
      route_specs = ((\<lambda>_. st_GET [] None None None None)
         (0 := st_GET ''/get'' None None (Some [PyOpaque 2]) None,
          1 := st_POST ''/post'' None None (Some [PyOpaque 3, PyOpaque 1]) None)),
      ws_specs = ((\<lambda>_. \<lparr>ws_path = [], ws_name = None\<rparr>)(2 := \<lparr>ws_path = ''/ws'', ws_name = None\<rparr>)),
      next_ref = 3\<rparr>"
  by (simp add: st_example_class_def new_route_def new_websocket_def empty_store_def Let_def
      numeral_2_eq_2 numeral_3_eq_3)

lemma st_example_class_members:
  "fst st_example_class =
     \<lparr>router_spec_attr = None,
      getmembers = [(''fake_get_handler'', ROUTE_call 0 (function_object 1 ())),
                    (''fake_post_handler'', ROUTE_call 1 (function_object 2 ())),
                    (''msg'', function_object 3 ()),
                    (''notify'', WEBSOCKET_call 2 (function_object 4 ()))]\<rparr>"
  by (simp add: st_example_class_def new_route_def new_websocket_def empty_store_def Let_def
      numeral_2_eq_2)

lemma st_example_facts:
  "router_spec_attr (fst st_example) = Some 3"
  "router_allocated (fst st_example) (snd st_example)"
  "router_specs (snd st_example) 3 = \<lparr>st_prefix = ''/api'', st_router_middleware = Some [PyOpaque 1]\<rparr>"
  "find_routes_from_router (fst st_example) =
     [(ROUTE_call 0 (function_object 1 ()), 0), (ROUTE_call 1 (function_object 2 ()), 1)]"
  "route_specs (snd st_example) 1 = st_POST ''/post'' None None (Some [PyOpaque 3, PyOpaque 1]) None"
  by (simp_all add: st_example_unfold st_example_class_store st_example_class_members
      ROUTER_def new_router_spec_def set_router_spec_def router_allocated_def
      find_routes_from_router_def ROUTE_call_def WEBSOCKET_call_def set_route_spec_def
      set_ws_route_spec_def function_object_def)

theorem starlette_mount_router_concatenates_middleware_witness:
  "router_spec_attr (fst st_example) = Some 3
   \<and> router_allocated (fst st_example) (snd st_example)
   \<and> st_router_middleware (router_specs (snd st_example) 3) = Some [PyOpaque 1]
   \<and> 1 < length (find_routes_from_router (fst st_example))
   \<and> find_routes_from_router (fst st_example) ! 1 = (ROUTE_call 1 (function_object 2 ()), 1)
   \<and> st_middleware (route_specs (snd st_example) 1) = Some [PyOpaque 3, PyOpaque 1]
   \<and> (\<exists>v. st_routes (fst (snd (starlette_mount_router \<lparr>st_routes = []\<rparr> (fst st_example) ''/v0''
                (snd st_example)))) ! (0 + 1) = Route (ROUTE_call 1 (function_object 2 ())) v
          \<and> st_middleware v = Some ([PyOpaque 1] @ [PyOpaque 3, PyOpaque 1]))
   \<and> concat_seq (Some [PyOpaque 1]) (Some [PyOpaque 3, PyOpaque 1])
        = Some ([PyOpaque 1] @ [PyOpaque 3, PyOpaque 1])"
proof -
  have h3: "st_router_middleware (router_specs (snd st_example) 3) = Some [PyOpaque 1]"
    by (simp add: st_example_facts)
  have h4: "1 < length (find_routes_from_router (fst st_example))"
    by (simp add: st_example_facts)
  have h5: "find_routes_from_router (fst st_example) ! 1 = (ROUTE_call 1 (function_object 2 ()), 1)"
    by (simp add: st_example_facts)
  have h6: "st_middleware (route_specs (snd st_example) 1) = Some [PyOpaque 3, PyOpaque 1]"
    using st_example_facts(5) by (simp add: st_POST_def st_ROUTE_init_def)
  show ?thesis
    using starlette_mount_router_concatenates_middleware
      [OF st_example_facts(1) st_example_facts(2) h3 h4 h5 h6, of "\<lparr>st_routes = []\<rparr>" "''/v0''"]
      st_example_facts(1) st_example_facts(2) h3 h4 h5 h6
    by simp
qed


section \<open>Mounting leaves the attached specifications alone\<close>

lemma starlette_mount_sequence_extends:
  "store_extends s
     (snd (fold (\<lambda>prefix (app, s). snd (starlette_mount_router app router prefix s))
             prefixes (app, s)))"
proof (induction prefixes arbitrary: app s)
  case Nil
  show ?case by (simp add: store_extends_refl)
next
  case (Cons p ps)
  obtain app1 s1 where step: "snd (starlette_mount_router app router p s) = (app1, s1)"
    by (cases "snd (starlette_mount_router app router p s)")
  have "store_extends s s1"
    using starlette_mount_router_extends[of s app router p] step by simp
  moreover have "store_extends s1
     (snd (fold (\<lambda>prefix (app, s). snd (starlette_mount_router app router prefix s)) ps (app1, s1)))"
    by (rule Cons.IH)
  ultimately show ?case by (simp add: step) (blast intro: store_extends_trans)
qed

lemma litestar_mount_sequence_extends:
  "store_extends s
     (snd (fold (\<lambda>(prefix, responses, tags, include_in_schema) (app, s).
                   snd (litestar_mount_router list_of app router prefix responses tags
                          include_in_schema s))
             calls (app, s)))"
proof (induction calls arbitrary: app s)
  case Nil
  show ?case by (simp add: store_extends_refl)
next
  case (Cons c cs)
  obtain p rsp tgs inc where c: "c = (p, rsp, tgs, inc)" by (cases c)
  obtain app1 s1 where step:
      "snd (litestar_mount_router list_of app router p rsp tgs inc s) = (app1, s1)"
    by (cases "snd (litestar_mount_router list_of app router p rsp tgs inc s)")
  have "store_extends s s1"
    using litestar_mount_router_extends[of s list_of app router p rsp tgs inc] step by simp
  moreover have "store_extends s1
     (snd (fold (\<lambda>(prefix, responses, tags, include_in_schema) (app, s).
                   snd (litestar_mount_router list_of app router prefix responses tags
                          include_in_schema s)) cs (app1, s1)))"
    by (rule Cons.IH)
  ultimately show ?case by (simp add: c step) (blast intro: store_extends_trans)
qed

lemma allocated_unchanged:
  assumes "router_allocated router s" and "store_extends s s'"
  shows "(case router_spec_attr router of None \<Rightarrow> True
          | Some a \<Rightarrow> router_specs s' a = router_specs s a)
       \<and> list_all (\<lambda>(fn, r). route_specs s' r = route_specs s r) (find_routes_from_router router)
       \<and> list_all (\<lambda>(fn, w). ws_specs s' w = ws_specs s w)
           (find_websocket_routes_from_router router)"
  using allocated_routes[OF assms(1)] allocated_websocket_routes[OF assms(1)] assms
  unfolding list_all_iff store_extends_def router_allocated_def
  by (fastforce split: option.splits)

text \<open>
  C9. Take a router whose attached specification objects exist in the store, and any
  sequence of \<^verbatim>\<open>mount_router\<close> calls on it, each with its own arguments, of
  \<^verbatim>\<open>starlette.py\<close> or of \<^verbatim>\<open>litestar.py\<close>. Every object that existed before the calls has the
  same field values after them: the calls assign only to the copies that \<^verbatim>\<open>replace\<close>
  made. So the router specification and the route and websocket specifications that
  \<^verbatim>\<open>inspect_router\<close> finds (it reads the router only, which mounting does not update) are
  the same objects with the same values.
\<close>

theorem mount_router_never_mutates_attached_specs:
  assumes "router_allocated router s" and "router_allocated router' t"
  shows "(let s' = snd (fold (\<lambda>prefix (app, s). snd (starlette_mount_router app router prefix s))
                          prefixes (app, s))
          in store_extends s s'
             \<and> (case router_spec_attr router of None \<Rightarrow> True
                 | Some a \<Rightarrow> router_specs s' a = router_specs s a)
             \<and> list_all (\<lambda>(fn, r). route_specs s' r = route_specs s r)
                  (find_routes_from_router router)
             \<and> list_all (\<lambda>(fn, w). ws_specs s' w = ws_specs s w)
                  (find_websocket_routes_from_router router))
       \<and> (let t' = snd (fold (\<lambda>(prefix, responses, tags, include_in_schema) (app, s).
                               snd (litestar_mount_router list_of app router' prefix responses tags
                                      include_in_schema s))
                          calls (app', t))
          in store_extends t t'
             \<and> (case router_spec_attr router' of None \<Rightarrow> True
                 | Some a \<Rightarrow> router_specs t' a = router_specs t a)
             \<and> list_all (\<lambda>(fn, r). route_specs t' r = route_specs t r)
                  (find_routes_from_router router')
             \<and> list_all (\<lambda>(fn, w). ws_specs t' w = ws_specs t w)
                  (find_websocket_routes_from_router router'))"
  using allocated_unchanged[OF assms(1) starlette_mount_sequence_extends[of s router prefixes app]]
    allocated_unchanged[OF assms(2) litestar_mount_sequence_extends[of t list_of router' calls app']]
    starlette_mount_sequence_extends[of s router prefixes app]
    litestar_mount_sequence_extends[of t list_of router' calls app']
  by (simp add: Let_def)


lemma ls_example_unfold:
  "ls_example = ROUTER \<lparr>ls_prefix = ''/v1'', ls_include_in_schema = None,
                 ls_router_tags = Some [''a'', ''b''],
                 ls_router_responses = Some [401 \<mapsto> PyStr ''router''],
                 ls_router_options = []\<rparr> (fst ls_example_class) (snd ls_example_class)"
  by (simp add: ls_example_def case_prod_unfold)

lemma ls_example_class_store:
  "snd ls_example_class =
     \<lparr>router_specs = (\<lambda>_. \<lparr>ls_prefix = [], ls_include_in_schema = None, ls_router_tags = None,
                            ls_router_responses = None, ls_router_options = []\<rparr>),
      route_specs = ((\<lambda>_. ls_GET (PyStr []) None None None [])
         (0 := ls_GET (PyStr ''/get'') None None None [],
          1 := ls_POST (PyStr ''/post'') None (Some [202 \<mapsto> PyStr ''route'']) None
                 [(''status_code'', Plain (PyInt 202)),
                  (''cache_control'', Instance [(''max_age'', Plain (PyInt 10))])])),
      ws_specs = ((\<lambda>_. \<lparr>ws_path = [], ws_name = None\<rparr>)(2 := \<lparr>ws_path = ''/ws'', ws_name = None\<rparr>)),
      next_ref = 3\<rparr>"
  by (simp add: ls_example_class_def new_route_def new_websocket_def empty_store_def Let_def
      numeral_2_eq_2 numeral_3_eq_3)

lemma ls_example_class_members:
  "fst ls_example_class =
     \<lparr>router_spec_attr = None,
      getmembers = [(''fake_get_handler'', ROUTE_call 0 (function_object 1 ())),
                    (''fake_post_handler'', ROUTE_call 1 (function_object 2 ())),
                    (''msg'', function_object 3 ()),
                    (''notify'', WEBSOCKET_call 2 (function_object 4 ()))]\<rparr>"
  by (simp add: ls_example_class_def new_route_def new_websocket_def empty_store_def Let_def
      numeral_2_eq_2)

lemma asdict_options_example:
  "asdict_options [(''status_code'', Plain (PyInt 202)),
                   (''cache_control'', Instance [(''max_age'', Plain (PyInt 10))])]
   = [(''status_code'', Plain (PyInt 202)),
      (''cache_control'', Dictionary [(Plain (PyStr ''max_age''), Plain (PyInt 10))])]"
  by (simp add: asdict_options_def)

lemma ls_example_facts:
  "router_spec_attr (fst ls_example) = Some 3"
  "router_allocated (fst ls_example) (snd ls_example)"
  "router_specs (snd ls_example) 3 =
     \<lparr>ls_prefix = ''/v1'', ls_include_in_schema = None, ls_router_tags = Some [''a'', ''b''],
      ls_router_responses = Some [401 \<mapsto> PyStr ''router''], ls_router_options = []\<rparr>"
  "find_routes_from_router (fst ls_example) =
     [(ROUTE_call 0 (function_object 1 ()), 0), (ROUTE_call 1 (function_object 2 ()), 1)]"
  "find_websocket_routes_from_router (fst ls_example) =
     [(WEBSOCKET_call 2 (function_object 4 ()), 2)]"
  by (simp_all add: ls_example_unfold ls_example_class_store ls_example_class_members
      ROUTER_def new_router_spec_def set_router_spec_def router_allocated_def
      find_routes_from_router_def find_websocket_routes_from_router_def
      ROUTE_call_def WEBSOCKET_call_def set_route_spec_def
      set_ws_route_spec_def function_object_def)

theorem mount_router_never_mutates_attached_specs_witness:
  "router_allocated (fst st_example) (snd st_example)
   \<and> router_allocated (fst ls_example) (snd ls_example)
   \<and> (let s' = snd (fold (\<lambda>prefix (app, s). snd (starlette_mount_router app (fst st_example) prefix s))
                          [''/api'', [], ''/api''] (\<lparr>st_routes = []\<rparr>, snd st_example))
          in store_extends (snd st_example) s'
             \<and> (case router_spec_attr (fst st_example) of None \<Rightarrow> True
                 | Some a \<Rightarrow> router_specs s' a = router_specs (snd st_example) a)
             \<and> list_all (\<lambda>(fn, r). route_specs s' r = route_specs (snd st_example) r)
                  (find_routes_from_router (fst st_example))
             \<and> list_all (\<lambda>(fn, w). ws_specs s' w = ws_specs (snd st_example) w)
                  (find_websocket_routes_from_router (fst st_example)))
   \<and> (let t' = snd (fold (\<lambda>(prefix, responses, tags, include_in_schema) (app, s).
                               snd (litestar_mount_router (\<lambda>S. []) app (fst ls_example) prefix
                                      responses tags include_in_schema s))
                          [(''/api'', None, Some [''b'', ''c''], None),
                           ([], Some [401 \<mapsto> PyStr ''mount''], None, Some False)]
                          (\<lparr>ls_registered = []\<rparr>, snd ls_example))
          in store_extends (snd ls_example) t'
             \<and> (case router_spec_attr (fst ls_example) of None \<Rightarrow> True
                 | Some a \<Rightarrow> router_specs t' a = router_specs (snd ls_example) a)
             \<and> list_all (\<lambda>(fn, r). route_specs t' r = route_specs (snd ls_example) r)
                  (find_routes_from_router (fst ls_example))
             \<and> list_all (\<lambda>(fn, w). ws_specs t' w = ws_specs (snd ls_example) w)
                  (find_websocket_routes_from_router (fst ls_example)))"
  using mount_router_never_mutates_attached_specs
      [OF st_example_facts(2) ls_example_facts(2),
       where prefixes = "[''/api'', [], ''/api'']" and app = "\<lparr>st_routes = []\<rparr>"
         and list_of = "\<lambda>S. []" and app' = "\<lparr>ls_registered = []\<rparr>"
         and calls = "[(''/api'', None, Some [''b'', ''c''], None),
                           ([], Some [401 \<mapsto> PyStr ''mount''], None, Some False)]"]
    st_example_facts(2) ls_example_facts(2)
  by blast


section \<open>Path composition, as registered\<close>




section \<open>The attached specification is not frozen\<close>

text \<open>
  C7 as stated fails in one word: the specification is not immutable. The
  specification attached to \<^verbatim>\<open>fake_get_handler\<close> is the object 0 with the path \<^verbatim>\<open>"/get"\<close>; the
  assignment \<^verbatim>\<open>spec.path = "/other"\<close> gives that same object the path \<^verbatim>\<open>"/other"\<close>. The module
  itself assigns to instances of the class: the copy that \<^verbatim>\<open>mount_router\<close> makes of the
  object (the object 4) has the path \<^verbatim>\<open>"/get"\<close> when \<^verbatim>\<open>replace\<close> returns and the path
  \<^verbatim>\<open>"/v0/api/get"\<close> when the body of the loop ends.
\<close>

theorem attached_spec_counterexample:
  "find_routes_from_router (fst st_example) ! 0 = (ROUTE_call 0 (function_object 1 ()), 0)
   \<and> st_path (route_specs (snd st_example) 0) = ''/get''
   \<and> st_path (route_specs (assign_route 0 (\<lambda>v. v\<lparr>st_path := ''/other''\<rparr>) (snd st_example)) 0)
        = ''/other''
   \<and> fst (replace_route 0 (snd st_example)) = 4
   \<and> st_path (route_specs (snd (replace_route 0 (snd st_example))) 4) = ''/get''
   \<and> st_path (route_specs (snd (st_mount_route ''/v0'' 3 (ROUTE_call 0 (function_object 1 ()), 0)
                 (\<lparr>st_routes = []\<rparr>, snd st_example))) 4) = ''/v0/api/get''"
proof -
  have r0: "route_specs (snd st_example) 0 = st_GET ''/get'' None None (Some [PyOpaque 2]) None"
    by (simp add: st_example_unfold st_example_class_store ROUTER_def new_router_spec_def)
  have n: "next_ref (snd st_example) = 4"
    by (simp add: st_example_unfold st_example_class_store ROUTER_def new_router_spec_def)
  show ?thesis
    by (simp add: st_example_facts(3,4) r0 n assign_route_def replace_route_def new_route_def
        st_mount_route_eq Let_def get_path_def rstrip_def lstrip_def st_GET_def st_ROUTE_init_def)
qed

section \<open>Mounting on Litestar: responses and tags\<close>

text \<open>
  C4, as the code has it. \<^verbatim>\<open>mount_router\<close> of \<^verbatim>\<open>litestar.py\<close> calls
  \<^verbatim>\<open>merge(responses, spec.responses)\<close>, and \<^verbatim>\<open>{**a, **b}\<close> lets \<open>b\<close> win: the merged mapping is
  the overlay of the mount-call mapping and the router-level mapping in which a key of
  the router-level mapping has the router-level value, and any other key the value of
  the mount call. It is the mapping that the host is given with the \<open>i\<close>-th discovered
  route when that route declares no responses of its own.
\<close>

theorem litestar_mount_router_responses_router_level_wins:
  assumes "router_spec_attr router = Some a" and "router_allocated router s"
    and "ls_router_responses (router_specs s a) = Some router_level"
    and "i < length (find_routes_from_router router)"
    and "find_routes_from_router router ! i = (fn, r)"
    and "ls_responses (route_specs s r) = None"
  shows "(\<exists>v. lr_route_handlers (last (ls_registered (fst (snd (litestar_mount_router list_of app
                  router prefix (Some mount_level) tags include_in_schema s))))) ! i
                = HTTPRouteHandler fn v
              \<and> ls_responses v = Some (mount_level ++ router_level))
       \<and> (\<forall>k. (mount_level ++ router_level) k =
                 (case router_level k of Some v \<Rightarrow> Some v | None \<Rightarrow> mount_level k))
       \<and> merge (Some mount_level) (Some router_level) = Some (mount_level ++ router_level)"
proof -
  have "lr_route_handlers (last (ls_registered (fst (snd (litestar_mount_router list_of app
                  router prefix (Some mount_level) tags include_in_schema s))))) ! i
        = HTTPRouteHandler fn ((ls_asdict_route (route_specs s r))
             \<lparr>ls_responses := merge (Some mount_level) (ls_router_responses (router_specs s a))\<rparr>)"
    using litestar_mount_router_eq[OF assms(1) allocated_routes[OF assms(2)],
      of list_of app prefix "Some mount_level" tags include_in_schema] assms(4,5)
    by (simp add: nth_append)
  then show ?thesis
    using assms(3) by (simp add: merge_def map_add_def)
qed

theorem litestar_mount_router_responses_router_level_wins_witness:
  "router_spec_attr (fst ls_example) = Some 3
   \<and> router_allocated (fst ls_example) (snd ls_example)
   \<and> ls_router_responses (router_specs (snd ls_example) 3) = Some [401 \<mapsto> PyStr ''router'']
   \<and> 0 < length (find_routes_from_router (fst ls_example))
   \<and> find_routes_from_router (fst ls_example) ! 0 = (ROUTE_call 0 (function_object 1 ()), 0)
   \<and> ls_responses (route_specs (snd ls_example) 0) = None
   \<and> (\<exists>v. lr_route_handlers (last (ls_registered (fst (snd (litestar_mount_router (\<lambda>S. [])
               \<lparr>ls_registered = []\<rparr> (fst ls_example) ''/api''
               (Some [401 \<mapsto> PyStr ''mount'', 500 \<mapsto> PyStr ''mount'']) None None
               (snd ls_example)))))) ! 0
             = HTTPRouteHandler (ROUTE_call 0 (function_object 1 ())) v
          \<and> ls_responses v = Some ([401 \<mapsto> PyStr ''mount'', 500 \<mapsto> PyStr ''mount'']
                                      ++ [401 \<mapsto> PyStr ''router'']))
   \<and> ([401 \<mapsto> PyStr ''mount'', 500 \<mapsto> PyStr ''mount''] ++ [401 \<mapsto> PyStr ''router'']) (401 :: int)
        = Some (PyStr ''router'')
   \<and> ([401 \<mapsto> PyStr ''mount'', 500 \<mapsto> PyStr ''mount''] ++ [401 \<mapsto> PyStr ''router'']) (500 :: int)
        = Some (PyStr ''mount'')"
proof -
  have h3: "ls_router_responses (router_specs (snd ls_example) 3) = Some [401 \<mapsto> PyStr ''router'']"
    by (simp add: ls_example_facts)
  have h4: "0 < length (find_routes_from_router (fst ls_example))"
    by (simp add: ls_example_facts)
  have h5: "find_routes_from_router (fst ls_example) ! 0 = (ROUTE_call 0 (function_object 1 ()), 0)"
    by (simp add: ls_example_facts)
  have h6: "ls_responses (route_specs (snd ls_example) 0) = None"
    by (simp add: ls_example_unfold ls_example_class_store ROUTER_def new_router_spec_def
        ls_GET_def ls_ROUTE_init_def)
  from litestar_mount_router_responses_router_level_wins
      [OF ls_example_facts(1) ls_example_facts(2) h3 h4 h5 h6, where list_of = "\<lambda>S. []"
        and app = "\<lparr>ls_registered = []\<rparr>" and prefix = "''/api''"
        and mount_level = "[401 \<mapsto> PyStr ''mount'', 500 \<mapsto> PyStr ''mount'']"
        and tags = None and include_in_schema = None]
  have "\<exists>v. lr_route_handlers (last (ls_registered (fst (snd (litestar_mount_router (\<lambda>S. [])
               \<lparr>ls_registered = []\<rparr> (fst ls_example) ''/api''
               (Some [401 \<mapsto> PyStr ''mount'', 500 \<mapsto> PyStr ''mount'']) None None
               (snd ls_example)))))) ! 0
             = HTTPRouteHandler (ROUTE_call 0 (function_object 1 ())) v
          \<and> ls_responses v = Some ([401 \<mapsto> PyStr ''mount'', 500 \<mapsto> PyStr ''mount'']
                                      ++ [401 \<mapsto> PyStr ''router''])"
    by blast
  moreover have "([401 \<mapsto> PyStr ''mount'', 500 \<mapsto> PyStr ''mount''] ++ [401 \<mapsto> PyStr ''router''])
        (401 :: int) = Some (PyStr ''router'')"
    by simp
  moreover have "([401 \<mapsto> PyStr ''mount'', 500 \<mapsto> PyStr ''mount''] ++ [401 \<mapsto> PyStr ''router''])
        (500 :: int) = Some (PyStr ''mount'')"
    by simp
  ultimately show ?thesis
    using ls_example_facts(1) ls_example_facts(2) h3 h4 h5 h6 by blast
qed

text \<open>
  C4 as stated fails: the key 401 is given by the mount call and by the router; the
  first discovered route declares no responses of its own, and the handler registered
  for it gets the router's value for the key.
\<close>

theorem litestar_mount_router_responses_counterexample:
  "ls_responses (route_specs (snd ls_example) (snd (hd (find_routes_from_router (fst ls_example)))))
     = None
   \<and> (case hd (lr_route_handlers (last (ls_registered (fst (snd (litestar_mount_router (\<lambda>S. [])
         \<lparr>ls_registered = []\<rparr> (fst ls_example) [] (Some [401 \<mapsto> PyStr ''mount'']) None None
         (snd ls_example))))))) of
      HTTPRouteHandler fn v \<Rightarrow> map_option (\<lambda>m. m 401) (ls_responses v)
    | WebsocketRouteHandler fn p n \<Rightarrow> None) = Some (Some (PyStr ''router''))
   \<and> PyStr ''router'' \<noteq> PyStr ''mount''"
proof -
  have h6: "ls_responses (route_specs (snd ls_example) 0) = None"
    by (simp add: ls_example_unfold ls_example_class_store ROUTER_def new_router_spec_def
        ls_GET_def ls_ROUTE_init_def)
  show ?thesis
    using litestar_mount_router_eq[OF ls_example_facts(1) allocated_routes[OF ls_example_facts(2)],
      of "\<lambda>S. []" "\<lparr>ls_registered = []\<rparr>" "[]" "Some [401 \<mapsto> PyStr ''mount'']" None None] h6
    by (simp add: ls_example_facts merge_def)
qed

text \<open>
  C5. \<^verbatim>\<open>mount_router\<close> of \<^verbatim>\<open>litestar.py\<close> gives the host router the tags
  \<^verbatim>\<open>concat_unique(tags, spec.tags)\<close>: when the mount call and the router each give a
  collection of tags, a list whose elements are exactly those of the two collections
  and in which no element is repeated, whatever the order in which Python lists the set.
\<close>

theorem litestar_mount_router_tags_union:
  assumes "router_spec_attr router = Some a"
    and "ls_router_tags (router_specs s a) = Some router_tags"
    and "set (list_of (set mount_tags \<union> set router_tags)) = set mount_tags \<union> set router_tags"
    and "distinct (list_of (set mount_tags \<union> set router_tags))"
  shows "\<exists>merged. lr_tags (last (ls_registered (fst (snd (litestar_mount_router list_of app router
            prefix responses (Some mount_tags) include_in_schema s))))) = Some merged
          \<and> concat_unique list_of (Some mount_tags) (Some router_tags) = Some merged
          \<and> set merged = set router_tags \<union> set mount_tags
          \<and> distinct merged"
proof -
  from litestar_mount_router_fields[OF assms(1), of list_of app prefix responses "Some mount_tags"
      include_in_schema s]
  have "lr_tags (last (ls_registered (fst (snd (litestar_mount_router list_of app router
            prefix responses (Some mount_tags) include_in_schema s)))))
        = concat_unique list_of (Some mount_tags) (Some router_tags)"
    using assms(2) by auto
  then show ?thesis
    using assms(3,4) by (auto simp: concat_unique_def)
qed

theorem litestar_mount_router_tags_union_witness:
  "router_spec_attr (fst ls_example) = Some 3
   \<and> ls_router_tags (router_specs (snd ls_example) 3) = Some [''a'', ''b'']
   \<and> set ((\<lambda>S. [''c'', ''a'', ''b'']) (set [''b'', ''c''] \<union> set [''a'', ''b'']))
        = set [''b'', ''c''] \<union> set [''a'', ''b'']
   \<and> distinct ((\<lambda>S. [''c'', ''a'', ''b'']) (set [''b'', ''c''] \<union> set [''a'', ''b'']))
   \<and> (\<exists>merged. lr_tags (last (ls_registered (fst (snd (litestar_mount_router
            (\<lambda>S. [''c'', ''a'', ''b'']) \<lparr>ls_registered = []\<rparr> (fst ls_example) ''/api'' None
            (Some [''b'', ''c'']) None (snd ls_example)))))) = Some merged
          \<and> concat_unique (\<lambda>S. [''c'', ''a'', ''b'']) (Some [''b'', ''c'']) (Some [''a'', ''b''])
               = Some merged
          \<and> set merged = {''a'', ''b'', ''c''}
          \<and> distinct merged)"
proof -
  have h2: "ls_router_tags (router_specs (snd ls_example) 3) = Some [''a'', ''b'']"
    by (simp add: ls_example_facts)
  have h3: "set ((\<lambda>S. [''c'', ''a'', ''b'']) (set [''b'', ''c''] \<union> set [''a'', ''b'']))
        = set [''b'', ''c''] \<union> set [''a'', ''b'']"
    by auto
  have h4: "distinct ((\<lambda>S. [''c'', ''a'', ''b'']) (set [''b'', ''c''] \<union> set [''a'', ''b'']))"
    by simp
  have u: "set [''a'', ''b''] \<union> set [''b'', ''c''] = {''a'', ''b'', ''c''}"
    by auto
  from litestar_mount_router_tags_union [OF ls_example_facts(1) h2 h3 h4,
      where app = "\<lparr>ls_registered = []\<rparr>" and prefix = "''/api''" and responses = None
        and include_in_schema = None]
  obtain merged where "lr_tags (last (ls_registered (fst (snd (litestar_mount_router
            (\<lambda>S. [''c'', ''a'', ''b'']) \<lparr>ls_registered = []\<rparr> (fst ls_example) ''/api'' None
            (Some [''b'', ''c'']) None (snd ls_example)))))) = Some merged"
    and "concat_unique (\<lambda>S. [''c'', ''a'', ''b'']) (Some [''b'', ''c'']) (Some [''a'', ''b''])
               = Some merged"
    and "set merged = set [''a'', ''b''] \<union> set [''b'', ''c'']"
    and "distinct merged"
    by blast
  then show ?thesis
    using ls_example_facts(1) h2 h3 h4 unfolding u by blast
qed


section \<open>The lifespan hook\<close>

lemma wrapper_passes_through:
  "async_with (asynccontextmanager (wrapper l)) body s = async_with (lifespan_call (call l)) body s"
  by (auto simp: async_with_def asynccontextmanager_def wrapper_def Let_def
      split: prod.splits option.splits sum.splits)

lemma hook_async_with:
  "async_with (asynccontextmanager (hook_generator h)) body s =
     (case body (hook_setup h s) of
        (None, s') \<Rightarrow> (None, hook_teardown h s')
      | (Some e, s') \<Rightarrow> (Some e, if hook_guarded h then hook_teardown h s' else s'))"
  by (auto simp: async_with_def asynccontextmanager_def hook_generator_def
      split: prod.splits option.splits sum.splits)

lemma fa_fold_routes_lifespan:
  "ar_lifespan (fold (fa_add_api_route s) xs r) = ar_lifespan r"
  by (induction xs arbitrary: r) (auto simp: fa_add_api_route_def)

lemma fa_fold_websockets_lifespan:
  "ar_lifespan (fold (fa_add_api_websocket_route s) xs r) = ar_lifespan r"
  by (induction xs arbitrary: r) (auto simp: fa_add_api_websocket_route_def)

lemma fastapi_mount_router_lifespan:
  assumes "router_spec_attr router = Some a"
  shows "ar_lifespan (ir_router (last (fa_included (fst (snd (fastapi_mount_router app router
           prefix tags responses deprecated include_in_schema dependencies default_response_class
           s)))))) = make_lifespan_for_router (find_lifespan router)"
  using assms
  by (simp add: fastapi_mount_router_def fastapi_inspect_router_def find_router_spec_def
      fa_fold_routes_lifespan fa_fold_websockets_lifespan Let_def)

text \<open>
  C8, as the code has it. The wrapper that \<^verbatim>\<open>mount_router\<close> of \<^verbatim>\<open>fastapi.py\<close> gives the host
  for the discovered hook behaves, around any body, as the hook itself: it enters the
  block of the hook before it yields and leaves it once, normally when the body ends and
  with the exception when the body raises. For a hook that \<^verbatim>\<open>LIFESPAN\<close> made from a method
  of the shape \<^verbatim>\<open>setup; yield; teardown\<close>, the set-up runs before the body, the code after the
  \<^verbatim>\<open>yield\<close> runs once after a body that ends, and after a body that raises it runs (once)
  only when the \<^verbatim>\<open>yield\<close> is guarded by \<^verbatim>\<open>try ... finally\<close>; the exception goes on to the
  host.
\<close>

theorem lifespan_wrapper_passes_exits_to_hook:
  assumes "router_spec_attr router = Some a"
    and "find_lifespan router = Some l"
  shows "\<exists>w. ar_lifespan (ir_router (last (fa_included (fst (snd (fastapi_mount_router app router
                 prefix tags responses deprecated include_in_schema dependencies
                 default_response_class s)))))) = Some w
          \<and> (\<forall>x body s0. async_with (w x) body s0 = async_with (lifespan_call (call l)) body s0)
          \<and> (\<forall>x body s0 i m h. l = LIFESPAN i m \<and> call m = hook_generator h \<longrightarrow>
                async_with (w x) body s0 =
                  (case body (hook_setup h s0) of
                     (None, s') \<Rightarrow> (None, hook_teardown h s')
                   | (Some e, s') \<Rightarrow>
                       (Some e, if hook_guarded h then hook_teardown h s' else s')))"
proof -
  have "ar_lifespan (ir_router (last (fa_included (fst (snd (fastapi_mount_router app router
                 prefix tags responses deprecated include_in_schema dependencies
                 default_response_class s))))))
          = Some (\<lambda>_. asynccontextmanager (wrapper l))"
    using fastapi_mount_router_lifespan[OF assms(1)] assms(2)
    by (simp add: make_lifespan_for_router_def)
  moreover have "\<And>i m h. l = LIFESPAN i m \<Longrightarrow> call m = hook_generator h \<Longrightarrow>
      lifespan_call (call l) = asynccontextmanager (hook_generator h)"
    by (simp add: LIFESPAN_def set_router_lifespan_marker_def)
  ultimately show ?thesis
    by (auto simp: wrapper_passes_through hook_async_with)
qed


lemma fa_example_facts:
  "router_spec_attr (fst (fa_example h)) = Some 3"
  "find_lifespan (fst (fa_example h)) = Some (LIFESPAN 6 (function_object 5 (hook_generator h)))"
  by (simp_all add: fa_example_def fa_example_class_def case_prod_unfold ROUTER_def
      new_router_spec_def set_router_spec_def new_route_def new_websocket_def empty_store_def
      Let_def find_lifespan_def ROUTE_call_def WEBSOCKET_call_def set_route_spec_def
      set_ws_route_spec_def function_object_def LIFESPAN_def set_router_lifespan_marker_def)

theorem lifespan_wrapper_passes_exits_to_hook_witness:
  "router_spec_attr (fst (fa_example test_hook)) = Some 3
   \<and> find_lifespan (fst (fa_example test_hook))
        = Some (LIFESPAN 6 (function_object 5 (hook_generator test_hook)))
   \<and> (\<exists>w. ar_lifespan (ir_router (last (fa_included (fst (snd (fastapi_mount_router
                 \<lparr>fa_included = []\<rparr> (fst (fa_example test_hook)) [] None None None True None
                 (PyOpaque 0) (snd (fa_example test_hook)))))))) = Some w
          \<and> async_with (w PyNone) (\<lambda>s. (None, s))
               \<lparr>lifespan_started = False, lifespan_stopped = False\<rparr>
             = (None, \<lparr>lifespan_started = True, lifespan_stopped = True\<rparr>)
          \<and> async_with (w PyNone) (\<lambda>s. (Some (Exception 0), s))
               \<lparr>lifespan_started = False, lifespan_stopped = False\<rparr>
             = (Some (Exception 0), \<lparr>lifespan_started = True, lifespan_stopped = True\<rparr>))"
proof -
  from lifespan_wrapper_passes_exits_to_hook
      [OF fa_example_facts(1) [of test_hook] fa_example_facts(2) [of test_hook],
       of "\<lparr>fa_included = []\<rparr>" "[]" None None None True None "PyOpaque 0"
          "snd (fa_example test_hook)"]
  obtain w where w: "ar_lifespan (ir_router (last (fa_included (fst (snd (fastapi_mount_router
                 \<lparr>fa_included = []\<rparr> (fst (fa_example test_hook)) [] None None None True None
                 (PyOpaque 0) (snd (fa_example test_hook)))))))) = Some w"
    and shaped: "\<And>x body s0 i m h.
        LIFESPAN 6 (function_object 5 (hook_generator test_hook)) = LIFESPAN i m \<Longrightarrow>
        call m = hook_generator h \<Longrightarrow>
        async_with (w x) body s0 =
                  (case body (hook_setup h s0) of
                     (None, s') \<Rightarrow> (None, hook_teardown h s')
                   | (Some e, s') \<Rightarrow>
                       (Some e, if hook_guarded h then hook_teardown h s' else s'))"
    by blast
  have c: "call (function_object 5 (hook_generator test_hook)) = hook_generator test_hook"
    by (simp add: function_object_def)
  have "async_with (w PyNone) (\<lambda>s. (None, s))
               \<lparr>lifespan_started = False, lifespan_stopped = False\<rparr>
             = (None, \<lparr>lifespan_started = True, lifespan_stopped = True\<rparr>)"
    by (simp add: shaped[OF refl c] test_hook_def)
  moreover have "async_with (w PyNone) (\<lambda>s. (Some (Exception 0), s))
               \<lparr>lifespan_started = False, lifespan_stopped = False\<rparr>
             = (Some (Exception 0), \<lparr>lifespan_started = True, lifespan_stopped = True\<rparr>)"
    by (simp add: shaped[OF refl c] test_hook_def)
  ultimately show ?thesis
    using w fa_example_facts(1) [of test_hook] fa_example_facts(2) [of test_hook] by blast
qed

text \<open>
  C8 as stated fails: a hook whose \<^verbatim>\<open>yield\<close> is not guarded is mounted, the host enters
  the installed wrapper, and the body raises. The hook was entered (the flag of the
  set-up is on), its code after the \<^verbatim>\<open>yield\<close> did not run (the flag of the teardown is
  off), and the exception reached the host.
\<close>

theorem lifespan_teardown_counterexample:
  "(case ar_lifespan (ir_router (last (fa_included (fst (snd (fastapi_mount_router
            \<lparr>fa_included = []\<rparr> (fst (fa_example unguarded_hook)) [] None None None True None
            (PyOpaque 0) (snd (fa_example unguarded_hook)))))))) of
      None \<Rightarrow> None
    | Some w \<Rightarrow> Some (async_with (w PyNone) (\<lambda>s. (Some (Exception 0), s))
                       \<lparr>lifespan_started = False, lifespan_stopped = False\<rparr>))
   = Some (Some (Exception 0), \<lparr>lifespan_started = True, lifespan_stopped = False\<rparr>)"
  by (simp add: fastapi_mount_router_lifespan [OF fa_example_facts(1)] fa_example_facts(2)
      make_lifespan_for_router_def wrapper_passes_through LIFESPAN_def
      set_router_lifespan_marker_def function_object_def hook_async_with
      unguarded_hook_def test_hook_def)

end
